theory Spec2Isabelle
  imports Complex_Main
begin

section \<open>JavaScript values and errors\<close>

text \<open>
  Strings are byte lists: a JavaScript string is read as its UTF-8 encoding, so an ASCII
  character is one \<open>char\<close> and any other code point is two to four.
\<close>

text \<open>
  The exceptions the code can meet. \<open>TypeError\<close>, \<open>URIError\<close> and \<open>SyntaxError\<close> are
  raised by the language (a property read on \<open>undefined\<close> or \<open>null\<close>, iterating a
  non-iterable, \<open>decodeURIComponent\<close>, \<open>JSON.parse\<close>); \<open>ServiceError name\<close> is whatever
  an SDK client's \<open>send\<close> or the scanner rejects with.
\<close>

datatype js_error = TypeError | URIError | SyntaxError | ServiceError string

text \<open>
  A value as \<open>JSON.parse\<close> returns it, with \<open>undefined\<close> added for an absent property.
  \<open>JObj\<close> lists the own properties of the object, each name once.
\<close>

datatype jsval =
    JUndefined
  | JNull
  | JBool bool
  | JNum real
  | JStr string
  | JArr "jsval list"
  | JObj "(string \<times> jsval) list"

text \<open>ToBoolean, as \<open>&&\<close> and \<open>||\<close> apply it.\<close>

fun truthy :: "jsval \<Rightarrow> bool" where
  "truthy JUndefined = False"
| "truthy JNull = False"
| "truthy (JBool b) = b"
| "truthy (JNum x) = (x \<noteq> 0)"
| "truthy (JStr s) = (s \<noteq> [])"
| "truthy (JArr _) = True"
| "truthy (JObj _) = True"

text \<open>
  \<open>v.name\<close> for the property names the code reads (\<open>requestParameters\<close>, \<open>bucketName\<close>,
  \<open>key\<close>, \<open>userIdentity\<close>, \<open>arn\<close>, \<open>principalId\<close>, \<open>sourceIPAddress\<close>, \<open>eventTime\<close>):
  a TypeError on \<open>undefined\<close> and \<open>null\<close>, the property of an object or \<open>undefined\<close>
  when it has none, and \<open>undefined\<close> on a primitive or an array, whose prototypes have
  none of these names.
\<close>

fun get_prop :: "jsval \<Rightarrow> string \<Rightarrow> js_error + jsval" where
  "get_prop JUndefined p = Inl TypeError"
| "get_prop JNull p = Inl TypeError"
| "get_prop (JObj kvs) p = Inr (case map_of kvs p of None \<Rightarrow> JUndefined | Some v \<Rightarrow> v)"
| "get_prop v p = Inr JUndefined"

text \<open>\<open>a || b\<close> on values already computed.\<close>

definition js_or :: "jsval \<Rightarrow> jsval \<Rightarrow> jsval" where
  "js_or a b = (if truthy a then a else b)"

text \<open>
  ToString, as a template literal applies it to an interpolated value. The text is a
  list of pieces; the digits of a number are left as the number. An object is turned
  into a primitive by its \<open>toString\<close> and then its \<open>valueOf\<close>: a parsed object has
  those of \<open>Object.prototype\<close>, which give \<open>[object Object]\<close>, unless it has a key
  \<open>toString\<close> of its own, whose value is never callable; then \<open>valueOf\<close>, its own or
  the inherited one, gives no primitive either, and the conversion throws a TypeError.
  An array is joined with commas, \<open>null\<close> and \<open>undefined\<close> elements giving no text,
  and throws when ToString of an element does.
\<close>

datatype piece = Chars string | Digits real

fun ToString :: "jsval \<Rightarrow> js_error + piece list"
  and join :: "jsval list \<Rightarrow> js_error + piece list" where
  "ToString JUndefined = Inr [Chars ''undefined'']"
| "ToString JNull = Inr [Chars ''null'']"
| "ToString (JBool b) = Inr [Chars (if b then ''true'' else ''false'')]"
| "ToString (JNum x) = Inr [Digits x]"
| "ToString (JStr s) = Inr [Chars s]"
| "ToString (JArr xs) = join xs"
| "ToString (JObj kvs) =
     (if map_of kvs ''toString'' = None then Inr [Chars ''[object Object]'']
      else Inl TypeError)"
| "join [] = Inr []"
| "join (x # xs) =
     (case (if x = JUndefined \<or> x = JNull then Inr [] else ToString x) of
        Inl e \<Rightarrow> Inl e
      | Inr t \<Rightarrow>
          (case join xs of
             Inl e \<Rightarrow> Inl e
           | Inr ts \<Rightarrow> Inr (if xs = [] then t else t @ Chars '','' # ts)))"

section \<open>Dates\<close>

text \<open>
  A Date object holds a time value: milliseconds since the epoch, or NaN (\<open>None\<close>) for
  an invalid date. The arithmetic is ECMAScript's (sections 21.4.1.x). \<open>getMinutes\<close>
  and \<open>setMinutes\<close> work on local time, which is the time value plus the offset of the
  time zone of the runtime: \<open>tza t True\<close> is the offset in milliseconds at the instant
  \<open>t\<close>, \<open>tza t False\<close> the offset at the local time \<open>t\<close>. On a runtime whose zone is
  UTC, as the Lambda runtime's is unless configured, the offset is 0 throughout.
\<close>

type_synonym date = "int option"

definition msPerDay :: int where "msPerDay = 86400000"
definition msPerHour :: int where "msPerHour = 3600000"
definition msPerMinute :: int where "msPerMinute = 60000"
definition msPerSecond :: int where "msPerSecond = 1000"

definition Day :: "int \<Rightarrow> int" where "Day t = t div msPerDay"
definition HourFromTime :: "int \<Rightarrow> int" where "HourFromTime t = (t div msPerHour) mod 24"
definition MinFromTime :: "int \<Rightarrow> int" where "MinFromTime t = (t div msPerMinute) mod 60"
definition SecFromTime :: "int \<Rightarrow> int" where "SecFromTime t = (t div msPerSecond) mod 60"
definition msFromTime :: "int \<Rightarrow> int" where "msFromTime t = t mod msPerSecond"

definition MakeTime :: "int \<Rightarrow> int \<Rightarrow> int \<Rightarrow> int \<Rightarrow> int" where
  "MakeTime h m s milli = h * msPerHour + m * msPerMinute + s * msPerSecond + milli"

definition MakeDate :: "int \<Rightarrow> int \<Rightarrow> int" where
  "MakeDate day time = day * msPerDay + time"

definition TimeClip :: "int \<Rightarrow> date" where
  "TimeClip t = (if \<bar>t\<bar> > 8640000000000000 then None else Some t)"

definition LocalTime :: "(int \<Rightarrow> bool \<Rightarrow> int) \<Rightarrow> int \<Rightarrow> int" where
  "LocalTime tza t = t + tza t True"

definition UTC :: "(int \<Rightarrow> bool \<Rightarrow> int) \<Rightarrow> int \<Rightarrow> int" where
  "UTC tza t = t - tza t False"

definition getMinutes :: "(int \<Rightarrow> bool \<Rightarrow> int) \<Rightarrow> date \<Rightarrow> int option" where
  "getMinutes tza d = map_option (\<lambda>t. MinFromTime (LocalTime tza t)) d"

text \<open>\<open>d.setMinutes(m)\<close>: the new time value of \<open>d\<close>; NaN when \<open>d\<close> or \<open>m\<close> is.\<close>

definition setMinutes :: "(int \<Rightarrow> bool \<Rightarrow> int) \<Rightarrow> date \<Rightarrow> int option \<Rightarrow> date" where
  "setMinutes tza d m =
     (case d of
        None \<Rightarrow> None
      | Some thisTime \<Rightarrow>
          (case m of
             None \<Rightarrow> None
           | Some mi \<Rightarrow>
               (let t = LocalTime tza thisTime
                in TimeClip (UTC tza (MakeDate (Day t)
                     (MakeTime (HourFromTime t) mi (SecFromTime t) (msFromTime t)))))))"

section \<open>The services the handler talks to\<close>

record scan_result =
  isMalicious :: bool
  details :: string

record lookup_events_command =
  AttributeKey :: string
  AttributeValue :: string
  StartTime :: date
  EndTime :: date

text \<open>
  An audit event of the response, given by what \<open>JSON.parse(event.CloudTrailEvent)\<close>
  returns; \<open>None\<close> when it throws a SyntaxError (text that is not JSON, or no text).
\<close>

datatype event = Event (CloudTrailEvent: "jsval option")

record delete_object_command =
  Bucket :: string
  Key :: string

text \<open>
  The alert. \<open>body\<close> holds the values the template of lines 119-131 interpolates, in
  the template's order; the fixed text around them is not modelled, and the text of
  a value is what ToString gives for it.
\<close>

record alert_body =
  body_bucket :: string
  body_key :: string
  body_details :: string
  body_user :: jsval
  body_ipAddress :: jsval
  body_uploadTime :: jsval

record send_email_command =
  ToAddresses :: "string option list"
  Subject :: string
  Body :: alert_body
  Source :: "string option"

text \<open>
  What the world answers: each SDK client's \<open>send\<close> resolves or rejects; the lookup
  resolves to the \<open>Events\<close> field of the response, \<open>None\<close> when the field is absent.
  An answer is a function of the command, which is enough for one run: a run sends at
  most one command to each client. \<open>Date_of\<close> is \<open>new Date(string)\<close>, and
  \<open>LocalTZA\<close> the offset of the time zone of the runtime.
\<close>

record world =
  cloudTrail_send :: "lookup_events_command \<Rightarrow> js_error + event list option"
  s3_send :: "delete_object_command \<Rightarrow> js_error + unit"
  ses_send :: "send_email_command \<Rightarrow> js_error + unit"
  Date_of :: "string \<Rightarrow> date"
  LocalTZA :: "int \<Rightarrow> bool \<Rightarrow> int"

text \<open>\<open>process.env\<close>: a variable that is not set reads as \<open>undefined\<close>.\<close>

record env =
  NOTIFICATION_EMAIL_TO :: "string option"
  NOTIFICATION_EMAIL_FROM :: "string option"

text \<open>The observable actions of a run, in order. \<open>ConsoleError\<close> is a \<open>console.error\<close>
  in a catch block; the informational \<open>console.log\<close> lines are left out.\<close>

datatype call =
    ScanCall string string
  | LookupEvents lookup_events_command
  | DeleteObject delete_object_command
  | SendEmail send_email_command
  | ConsoleError js_error

section \<open>scanWithCrowdstrike (lines 15-45)\<close>

text \<open>
  \<open>toLowerCase\<close> on the ASCII letters; a byte of a code point outside ASCII is kept
  (Unicode case mapping is not modelled).
\<close>

definition lower_char :: "char \<Rightarrow> char" where
  "lower_char c =
     (if 65 \<le> (of_char c :: nat) \<and> (of_char c :: nat) \<le> 90
      then char_of (of_char c + (32 :: nat)) else c)"

definition toLowerCase :: "string \<Rightarrow> string" where
  "toLowerCase s = map lower_char s"

text \<open>\<open>s.includes(p)\<close>: \<open>p\<close> occurs in \<open>s\<close> as a contiguous run.\<close>

fun js_includes :: "string \<Rightarrow> string \<Rightarrow> bool" where
  "js_includes [] p = (p = [])"
| "js_includes (c # cs) p = (take (length p) (c # cs) = p \<or> js_includes cs p)"

definition scanWithCrowdstrike :: "string \<Rightarrow> string \<Rightarrow> js_error + scan_result" where
  "scanWithCrowdstrike bucket key =
     (if js_includes (toLowerCase key) ''malicious''
      then Inr \<lparr>isMalicious = True, details = ''Simulated detection: EICAR Test File''\<rparr>
      else Inr \<lparr>isMalicious = False, details = ''Scan complete. No threats found.''\<rparr>)"

section \<open>getUploadDetailsFromCloudTrail (lines 48-88)\<close>

record upload_details =
  user :: jsval
  ipAddress :: jsval
  uploadTime :: jsval

text \<open>The test of line 70, on the parsed event.\<close>

definition matches :: "string \<Rightarrow> string \<Rightarrow> jsval \<Rightarrow> js_error + bool" where
  "matches bucket key cloudTrailEvent =
     (case get_prop cloudTrailEvent ''requestParameters'' of
        Inl e \<Rightarrow> Inl e
      | Inr requestParams \<Rightarrow>
          if \<not> truthy requestParams then Inr False
          else (case get_prop requestParams ''bucketName'' of
                  Inl e \<Rightarrow> Inl e
                | Inr b \<Rightarrow>
                    if b \<noteq> JStr bucket then Inr False
                    else (case get_prop requestParams ''key'' of
                            Inl e \<Rightarrow> Inl e
                          | Inr k \<Rightarrow> Inr (k = JStr key))))"

text \<open>The object literal of lines 71-75.\<close>

definition details_of :: "jsval \<Rightarrow> js_error + upload_details" where
  "details_of cloudTrailEvent =
     (case get_prop cloudTrailEvent ''userIdentity'' of
        Inl e \<Rightarrow> Inl e
      | Inr userIdentity \<Rightarrow>
          (case get_prop userIdentity ''arn'' of
             Inl e \<Rightarrow> Inl e
           | Inr arn \<Rightarrow>
               (case get_prop userIdentity ''principalId'' of
                  Inl e \<Rightarrow> Inl e
                | Inr principalId \<Rightarrow>
                    (case get_prop cloudTrailEvent ''sourceIPAddress'' of
                       Inl e \<Rightarrow> Inl e
                     | Inr ip \<Rightarrow>
                         (case get_prop cloudTrailEvent ''eventTime'' of
                            Inl e \<Rightarrow> Inl e
                          | Inr t \<Rightarrow>
                              Inr \<lparr>user = js_or arn principalId,
                                   ipAddress = ip, uploadTime = t\<rparr>)))))"

text \<open>
  The loop of lines 66-77: \<open>Inr (Some d)\<close> is the \<open>return\<close> inside the loop,
  \<open>Inr None\<close> is falling out of it, \<open>Inl e\<close> an exception thrown in its body.
\<close>

fun find_upload :: "string \<Rightarrow> string \<Rightarrow> event list \<Rightarrow> js_error + upload_details option" where
  "find_upload bucket key [] = Inr None"
| "find_upload bucket key (ev # evs) =
     (case CloudTrailEvent ev of
        None \<Rightarrow> Inl SyntaxError
      | Some cloudTrailEvent \<Rightarrow>
          (case matches bucket key cloudTrailEvent of
             Inl e \<Rightarrow> Inl e
           | Inr True \<Rightarrow> map_sum id Some (details_of cloudTrailEvent)
           | Inr False \<Rightarrow> find_upload bucket key evs))"

definition not_found :: "string \<Rightarrow> upload_details" where
  "not_found eventTime =
     \<lparr>user = JStr ''Not Found (CloudTrail Latency)'',
      ipAddress = JStr ''Not Found'',
      uploadTime = JStr eventTime\<rparr>"

definition lookup_command :: "world \<Rightarrow> string \<Rightarrow> lookup_events_command" where
  "lookup_command w eventTime =
     (let startTime = Date_of w eventTime;
          startTime' = setMinutes (LocalTZA w) startTime
                         (map_option (\<lambda>m. m - 15) (getMinutes (LocalTZA w) startTime))
      in \<lparr>AttributeKey = ''EventName'', AttributeValue = ''PutObject'',
          StartTime = startTime', EndTime = Date_of w eventTime\<rparr>)"

definition getUploadDetailsFromCloudTrail ::
  "world \<Rightarrow> string \<Rightarrow> string \<Rightarrow> string \<Rightarrow> call list \<times> upload_details" where
  "getUploadDetailsFromCloudTrail w bucket key eventTime =
     (let command = lookup_command w eventTime in
      case (case cloudTrail_send w command of
              Inl e \<Rightarrow> Inl e
            | Inr None \<Rightarrow> Inl TypeError
            | Inr (Some Events) \<Rightarrow> find_upload bucket key Events) of
        Inr (Some d) \<Rightarrow> ([LookupEvents command], d)
      | Inr None \<Rightarrow> ([LookupEvents command], not_found eventTime)
      | Inl error \<Rightarrow> ([LookupEvents command, ConsoleError error], not_found eventTime))"

section \<open>decodeURIComponent\<close>

text \<open>
  ECMAScript's Decode (section 19.2.6.6) with an empty set of preserved escapes, on the
  UTF-8 reading of strings: an escape sequence that encodes a code point contributes
  the octets of that code point.
\<close>

definition hex_digit :: "char \<Rightarrow> nat option" where
  "hex_digit c =
     (let n = (of_char c :: nat) in
      if 48 \<le> n \<and> n \<le> 57 then Some (n - 48)
      else if 65 \<le> n \<and> n \<le> 70 then Some (n - 55)
      else if 97 \<le> n \<and> n \<le> 102 then Some (n - 87)
      else None)"

definition ParseHexOctet :: "char \<Rightarrow> char \<Rightarrow> nat option" where
  "ParseHexOctet a b =
     (case hex_digit a of
        None \<Rightarrow> None
      | Some h \<Rightarrow> (case hex_digit b of None \<Rightarrow> None | Some l \<Rightarrow> Some (16 * h + l)))"

text \<open>The number of leading 1 bits of an octet; 5 stands for five or more.\<close>

definition leading_ones :: "nat \<Rightarrow> nat" where
  "leading_ones B =
     (if B < 128 then 0 else if B < 192 then 1 else if B < 224 then 2
      else if B < 240 then 3 else if B < 248 then 4 else 5)"

text \<open>The next \<open>j\<close> escapes \<open>%XX\<close> of the string, and what follows them.\<close>

fun continuation_octets :: "nat \<Rightarrow> string \<Rightarrow> (nat list \<times> string) option" where
  "continuation_octets 0 s = Some ([], s)"
| "continuation_octets (Suc j) (p # a # b # s) =
     (if p \<noteq> CHR ''%'' then None
      else (case ParseHexOctet a b of
              None \<Rightarrow> None
            | Some B \<Rightarrow> map_option (\<lambda>(os, r). (B # os, r)) (continuation_octets j s)))"
| "continuation_octets (Suc j) s = None"

definition cont :: "nat \<Rightarrow> bool" where
  "cont b = (128 \<le> b \<and> b \<le> 191)"

text \<open>Octets that are the UTF-8 encoding of one code point outside ASCII: no overlong
  form, no surrogate, nothing above U+10FFFF.\<close>

fun valid_utf8 :: "nat list \<Rightarrow> bool" where
  "valid_utf8 [a, b] = (194 \<le> a \<and> a \<le> 223 \<and> cont b)"
| "valid_utf8 [a, b, c] =
     ((a = 224 \<and> 160 \<le> b \<and> b \<le> 191
       \<or> 225 \<le> a \<and> a \<le> 236 \<and> cont b
       \<or> a = 237 \<and> 128 \<le> b \<and> b \<le> 159
       \<or> 238 \<le> a \<and> a \<le> 239 \<and> cont b) \<and> cont c)"
| "valid_utf8 [a, b, c, d] =
     ((a = 240 \<and> 144 \<le> b \<and> b \<le> 191
       \<or> 241 \<le> a \<and> a \<le> 243 \<and> cont b
       \<or> a = 244 \<and> 128 \<le> b \<and> b \<le> 143) \<and> cont c \<and> cont d)"
| "valid_utf8 _ = False"

function decodeURIComponent :: "string \<Rightarrow> js_error + string" where
  "decodeURIComponent [] = Inr []"
| "decodeURIComponent (C # s) =
     (if C \<noteq> CHR ''%'' then map_sum id ((#) C) (decodeURIComponent s)
      else (case s of
              a # b # s' \<Rightarrow>
                (case ParseHexOctet a b of
                   None \<Rightarrow> Inl URIError
                 | Some B \<Rightarrow>
                     if leading_ones B = 0
                     then map_sum id ((#) (char_of B)) (decodeURIComponent s')
                     else if leading_ones B = 1 \<or> leading_ones B > 4 then Inl URIError
                     else (case continuation_octets (leading_ones B - 1) s' of
                             None \<Rightarrow> Inl URIError
                           | Some (Octets, s'') \<Rightarrow>
                               if \<not> valid_utf8 (B # Octets) then Inl URIError
                               else map_sum id ((@) (map char_of (B # Octets)))
                                      (decodeURIComponent s'')))
            | _ \<Rightarrow> Inl URIError))"
  by pat_completeness auto
termination
proof -
  have shorter: "length r \<le> length s" if "continuation_octets j s = Some (os, r)"
    for j s os r
    using that
  proof (induction j s arbitrary: os r rule: continuation_octets.induct)
    case (2 j p a b s)
    then show ?case
      by (fastforce split: if_splits option.splits)
  qed simp_all
  show ?thesis
    by (relation "measure length") (auto dest: shorter)
qed

section \<open>handler (lines 92-157)\<close>

record s3_record =
  bucket_name :: string
  object_key :: string
  record_eventTime :: string

record s3_event =
  Records :: "s3_record list"

record response =
  statusCode :: nat
  body :: string

text \<open>\<open>JSON.stringify\<close> of an object of strings none of which needs an escape.\<close>

definition quoted :: "string \<Rightarrow> string" where
  "quoted s = CHR 0x22 # s @ [CHR 0x22]"

fun members :: "(string \<times> string) list \<Rightarrow> string" where
  "members [] = []"
| "members [(k, v)] = quoted k @ '':'' @ quoted v"
| "members ((k, v) # kvs) = quoted k @ '':'' @ quoted v @ '','' @ members kvs"

definition JSON_stringify :: "(string \<times> string) list \<Rightarrow> string" where
  "JSON_stringify kvs = ''{'' @ members kvs @ ''}''"

text \<open>\<open>s.replace(/\+/g, ' ')\<close>\<close>

definition replace_plus :: "string \<Rightarrow> string" where
  "replace_plus s = map (\<lambda>c. if c = CHR ''+'' then CHR '' '' else c) s"

text \<open>Line 97.\<close>

definition decode_key :: "string \<Rightarrow> js_error + string" where
  "decode_key k = decodeURIComponent (replace_plus k)"

definition result_of :: "bool \<Rightarrow> response" where
  "result_of malicious =
     \<lparr>statusCode = 200,
      body = JSON_stringify [(''message'', ''Scan complete.''),
               (''status'', if malicious then ''Malicious'' else ''Clean'')]\<rparr>"

definition email_command :: "env \<Rightarrow> string \<Rightarrow> string \<Rightarrow> scan_result \<Rightarrow> upload_details \<Rightarrow> send_email_command" where
  "email_command en bucket key scanResult uploadDetails =
     \<lparr>ToAddresses = [NOTIFICATION_EMAIL_TO en],
      Subject = ''[SECURITY ALERT] Malicious File Deleted from S3'',
      Body = \<lparr>body_bucket = bucket, body_key = key, body_details = details scanResult,
              body_user = user uploadDetails, body_ipAddress = ipAddress uploadDetails,
              body_uploadTime = uploadTime uploadDetails\<rparr>,
      Source = NOTIFICATION_EMAIL_FROM en\<rparr>"

text \<open>
  The template literal of lines 119-131 applies ToString to each value it interpolates,
  in order. \<open>bucket\<close>, \<open>key\<close> and the scan details are strings; the three fields of
  the upload details are whatever the audit event held.
\<close>

definition interpolate :: "upload_details \<Rightarrow> js_error + piece list \<times> piece list \<times> piece list" where
  "interpolate uploadDetails =
     (case ToString (user uploadDetails) of
        Inl e \<Rightarrow> Inl e
      | Inr u \<Rightarrow>
          (case ToString (ipAddress uploadDetails) of
             Inl e \<Rightarrow> Inl e
           | Inr i \<Rightarrow>
               (case ToString (uploadTime uploadDetails) of
                  Inl e \<Rightarrow> Inl e
                | Inr t \<Rightarrow> Inr (u, i, t))))"

text \<open>
  The body of the \<open>try\<close> (lines 103-150), with the scanner it awaits as a parameter:
  the calls made, and the value returned or the exception thrown.
\<close>

definition try_block ::
  "(string \<Rightarrow> string \<Rightarrow> js_error + scan_result) \<Rightarrow> world \<Rightarrow> env \<Rightarrow>
     string \<Rightarrow> string \<Rightarrow> string \<Rightarrow> call list \<times> (js_error + response)" where
  "try_block scan w en bucket key eventTime =
     (case scan bucket key of
        Inl e \<Rightarrow> ([ScanCall bucket key], Inl e)
      | Inr scanResult \<Rightarrow>
          if isMalicious scanResult then
            (let (lookup, uploadDetails) = getUploadDetailsFromCloudTrail w bucket key eventTime;
                 deleteCommand = \<lparr>Bucket = bucket, Key = key\<rparr>
             in case s3_send w deleteCommand of
                  Inl e \<Rightarrow> (ScanCall bucket key # lookup @ [DeleteObject deleteCommand], Inl e)
                | Inr _ \<Rightarrow>
                    (case interpolate uploadDetails of
                       Inl e \<Rightarrow>
                         (ScanCall bucket key # lookup @ [DeleteObject deleteCommand], Inl e)
                     | Inr text \<Rightarrow>
                         (let emailCommand =
                                email_command en bucket key scanResult uploadDetails
                          in case ses_send w emailCommand of
                               Inl e \<Rightarrow>
                                 (ScanCall bucket key # lookup @
                                    [DeleteObject deleteCommand, SendEmail emailCommand],
                                  Inl e)
                             | Inr _ \<Rightarrow>
                                 (ScanCall bucket key # lookup @
                                    [DeleteObject deleteCommand, SendEmail emailCommand],
                                  Inr (result_of (isMalicious scanResult))))))
          else ([ScanCall bucket key], Inr (result_of (isMalicious scanResult))))"

text \<open>The \<open>try\<close> with its \<open>catch\<close> (lines 152-156): log, then rethrow.\<close>

definition try_catch ::
  "(string \<Rightarrow> string \<Rightarrow> js_error + scan_result) \<Rightarrow> world \<Rightarrow> env \<Rightarrow>
     string \<Rightarrow> string \<Rightarrow> string \<Rightarrow> call list \<times> (js_error + response)" where
  "try_catch scan w en bucket key eventTime =
     (case try_block scan w en bucket key eventTime of
        (calls, Inl error) \<Rightarrow> (calls @ [ConsoleError error], Inl error)
      | (calls, Inr r) \<Rightarrow> (calls, Inr r))"

text \<open>
  The handler over a scanner: \<open>Inl\<close> is the rejection of the promise it returns.
  Lines 95-98 run before the \<open>try\<close>: reading \<open>s3\<close> of \<open>Records[0]\<close> when there is
  no record is a TypeError, and a key that does not decode is a URIError. The scanner
  is a parameter because the one in the repository is a stand-in that cannot fail; its
  comments (lines 12-34) have it replaced by a call to the scanning service, which can.
\<close>

definition handler_with ::
  "(string \<Rightarrow> string \<Rightarrow> js_error + scan_result) \<Rightarrow> world \<Rightarrow> env \<Rightarrow> s3_event \<Rightarrow>
     call list \<times> (js_error + response)" where
  "handler_with scan w en ev =
     (case Records ev of
        [] \<Rightarrow> ([], Inl TypeError)
      | record # _ \<Rightarrow>
          (case decode_key (object_key record) of
             Inl e \<Rightarrow> ([], Inl e)
           | Inr key \<Rightarrow>
               try_catch scan w en (bucket_name record) key (record_eventTime record)))"

text \<open>The handler as the repository has it, on the stand-in scanner.\<close>

definition handler :: "world \<Rightarrow> env \<Rightarrow> s3_event \<Rightarrow> call list \<times> (js_error + response)" where
  "handler = handler_with scanWithCrowdstrike"

section \<open>Reading a run\<close>

fun is_scan :: "call \<Rightarrow> bool" where
  "is_scan (ScanCall b k) = True"
| "is_scan c = False"

fun is_lookup :: "call \<Rightarrow> bool" where
  "is_lookup (LookupEvents c) = True"
| "is_lookup c = False"

fun is_delete :: "call \<Rightarrow> bool" where
  "is_delete (DeleteObject c) = True"
| "is_delete c = False"

fun is_notify :: "call \<Rightarrow> bool" where
  "is_notify (SendEmail c) = True"
| "is_notify c = False"

section \<open>The scenario of the specification\<close>

definition alice_event :: event where
  "alice_event =
     Event (Some (JObj
       [(''requestParameters'',
           JObj [(''bucketName'', JStr ''uploads''),
                 (''key'', JStr ''reports/malicious_invoice.pdf'')]),
        (''userIdentity'', JObj [(''arn'', JStr ''arn:aws:iam::123:user/alice'')]),
        (''sourceIPAddress'', JStr ''203.0.113.5''),
        (''eventTime'', JStr ''2024-01-01T09:59:58Z'')]))"

definition ten_o_clock :: "string \<Rightarrow> date" where
  "ten_o_clock s = (if s = ''2024-01-01T10:00:00Z'' then Some 1704103200000 else None)"

definition all_up :: world where
  "all_up =
     \<lparr>cloudTrail_send = (\<lambda>c. Inr (Some [alice_event])),
      s3_send = (\<lambda>c. Inr ()),
      ses_send = (\<lambda>c. Inr ()),
      Date_of = ten_o_clock,
      LocalTZA = (\<lambda>t isUTC. 0)\<rparr>"

definition mail_env :: env where
  "mail_env =
     \<lparr>NOTIFICATION_EMAIL_TO = Some ''soc@example.com'',
      NOTIFICATION_EMAIL_FROM = Some ''scanner@example.com''\<rparr>"

definition upload :: "string \<Rightarrow> s3_record" where
  "upload k =
     \<lparr>bucket_name = ''uploads'', object_key = k,
      record_eventTime = ''2024-01-01T10:00:00Z''\<rparr>"

definition malicious_upload :: s3_event where
  "malicious_upload = \<lparr>Records = [upload ''reports/malicious_invoice.pdf'']\<rparr>"

definition clean_upload :: s3_event where
  "clean_upload = \<lparr>Records = [upload ''reports/invoice.pdf'']\<rparr>"

definition mail_down :: world where
  "mail_down = all_up\<lparr>ses_send := (\<lambda>c. Inl (ServiceError ''MessageRejected''))\<rparr>"

definition storage_down :: world where
  "storage_down = all_up\<lparr>s3_send := (\<lambda>c. Inl (ServiceError ''AccessDenied''))\<rparr>"

definition scanner_down :: "string \<Rightarrow> string \<Rightarrow> js_error + scan_result" where
  "scanner_down bucket key = Inl (ServiceError ''ScanUnavailable'')"

definition alice :: upload_details where
  "alice = \<lparr>user = JStr ''arn:aws:iam::123:user/alice'', ipAddress = JStr ''203.0.113.5'',
     uploadTime = JStr ''2024-01-01T09:59:58Z''\<rparr>"

definition window :: lookup_events_command where
  "window = \<lparr>AttributeKey = ''EventName'', AttributeValue = ''PutObject'',
     StartTime = Some 1704102300000, EndTime = Some 1704103200000\<rparr>"

definition two_uploads :: s3_event where
  "two_uploads =
     \<lparr>Records = [upload ''reports/invoice.pdf'', upload ''reports/malicious_invoice.pdf'']\<rparr>"

definition no_uploads :: s3_event where
  "no_uploads = \<lparr>Records = []\<rparr>"

section \<open>Reading the audit events\<close>

text \<open>
  An event matches when the test of line 70 holds of it; it is passed over when the test
  is evaluated and fails. An event that is neither makes the loop throw: its text does
  not parse, or it parses to \<open>null\<close>.
\<close>

definition is_match :: "string \<Rightarrow> string \<Rightarrow> event \<Rightarrow> bool" where
  "is_match bucket key ev =
     (case CloudTrailEvent ev of
        None \<Rightarrow> False
      | Some cloudTrailEvent \<Rightarrow> matches bucket key cloudTrailEvent = Inr True)"

definition passed_over :: "string \<Rightarrow> string \<Rightarrow> event \<Rightarrow> bool" where
  "passed_over bucket key ev =
     (case CloudTrailEvent ev of
        None \<Rightarrow> False
      | Some cloudTrailEvent \<Rightarrow> matches bucket key cloudTrailEvent = Inr False)"

definition other_event :: event where
  "other_event =
     Event (Some (JObj
       [(''requestParameters'',
           JObj [(''bucketName'', JStr ''uploads''), (''key'', JStr ''reports/q3.pdf'')]),
        (''userIdentity'', JObj [(''arn'', JStr ''arn:aws:iam::123:user/bob'')]),
        (''sourceIPAddress'', JStr ''198.51.100.7''),
        (''eventTime'', JStr ''2024-01-01T09:58:00Z'')]))"

definition audit_down :: world where
  "audit_down = all_up\<lparr>cloudTrail_send := (\<lambda>c. Inl (ServiceError ''ThrottlingException''))\<rparr>"

definition audit_lagging :: world where
  "audit_lagging = all_up\<lparr>cloudTrail_send := (\<lambda>c. Inr (Some [other_event]))\<rparr>"

definition no_identity_event :: event where
  "no_identity_event =
     Event (Some (JObj
       [(''requestParameters'',
           JObj [(''bucketName'', JStr ''uploads''),
                 (''key'', JStr ''reports/malicious_invoice.pdf'')]),
        (''sourceIPAddress'', JStr ''203.0.113.5''),
        (''eventTime'', JStr ''2024-01-01T09:59:58Z'')]))"

definition anonymous_event :: event where
  "anonymous_event =
     Event (Some (JObj
       [(''requestParameters'',
           JObj [(''bucketName'', JStr ''uploads''),
                 (''key'', JStr ''reports/malicious_invoice.pdf'')]),
        (''userIdentity'', JObj [(''type'', JStr ''AWSAccount'')]),
        (''sourceIPAddress'', JStr ''203.0.113.5''),
        (''eventTime'', JStr ''2024-01-01T09:59:58Z'')]))"

definition role_event :: event where
  "role_event =
     Event (Some (JObj
       [(''requestParameters'',
           JObj [(''bucketName'', JStr ''uploads''),
                 (''key'', JStr ''reports/malicious_invoice.pdf'')]),
        (''userIdentity'', JObj [(''principalId'', JStr ''AROAEXAMPLE:session'')]),
        (''sourceIPAddress'', JStr ''192.0.2.44''),
        (''eventTime'', JStr ''2024-01-01T09:59:40Z'')]))"

text \<open>An upload whose \<open>arn\<close> is the object \<open>{"toString": 0}\<close>, which has no text.\<close>

definition unprintable_event :: event where
  "unprintable_event =
     Event (Some (JObj
       [(''requestParameters'',
           JObj [(''bucketName'', JStr ''uploads''),
                 (''key'', JStr ''reports/malicious_invoice.pdf'')]),
        (''userIdentity'', JObj [(''arn'', JObj [(''toString'', JNum 0)])]),
        (''sourceIPAddress'', JStr ''203.0.113.5''),
        (''eventTime'', JStr ''2024-01-01T09:59:58Z'')]))"

definition audit_answers :: "event list \<Rightarrow> world" where
  "audit_answers evs = all_up\<lparr>cloudTrail_send := (\<lambda>c. Inr (Some evs))\<rparr>"

definition bucket_gone :: world where
  "bucket_gone = all_up\<lparr>s3_send := (\<lambda>c. Inl (ServiceError ''NoSuchBucket''))\<rparr>"

section \<open>The key encoding of the ingestion event\<close>

text \<open>
  Modelled from the spec: the encoding scheme of the object key in the event, which
  is not code of the repository. Section 6 has the key "percent-encoded, with literal
  \<open>+\<close> representing space": a space becomes \<open>+\<close>, a character the scheme keeps
  stands for itself, and every other octet of the key becomes \<open>%XX\<close>. Which characters
  are kept is the parameter \<open>keep\<close>; \<open>utf8\<close> says that a byte list is the UTF-8
  reading of a string.
\<close>

definition hex_char :: "nat \<Rightarrow> char" where
  "hex_char n = (if n < 10 then char_of (48 + n) else char_of (55 + n))"

definition percent :: "char \<Rightarrow> string" where
  "percent c = [CHR ''%'', hex_char (of_char c div 16), hex_char (of_char c mod 16)]"

definition encode_char :: "(char \<Rightarrow> bool) \<Rightarrow> char \<Rightarrow> string" where
  "encode_char keep c =
     (if c = CHR '' '' then ''+'' else if keep c then [c] else percent c)"

definition encode_key :: "(char \<Rightarrow> bool) \<Rightarrow> string \<Rightarrow> string" where
  "encode_key keep k = concat (map (encode_char keep) k)"

fun utf8 :: "string \<Rightarrow> bool" where
  "utf8 [] = True"
| "utf8 (c # cs) =
     (if leading_ones (of_char c) = 0 then utf8 cs
      else if leading_ones (of_char c) = 1 \<or> leading_ones (of_char c) > 4 then False
      else leading_ones (of_char c) - 1 \<le> length cs
           \<and> valid_utf8 (of_char c # map of_char (take (leading_ones (of_char c) - 1) cs))
           \<and> utf8 (drop (leading_ones (of_char c) - 1) cs))"

text \<open>An instance: letters, digits, \<open>- . _ ~\<close> and the slash are kept.\<close>

definition unreserved :: "char \<Rightarrow> bool" where
  "unreserved c =
     (let n = (of_char c :: nat) in
      48 \<le> n \<and> n \<le> 57 \<or> 65 \<le> n \<and> n \<le> 90 \<or> 97 \<le> n \<and> n \<le> 122
      \<or> c = CHR ''-'' \<or> c = CHR ''.'' \<or> c = CHR ''_'' \<or> c = CHR ''~'' \<or> c = CHR ''/'')"

definition stored_key :: string where
  "stored_key = [CHR ''Q'', CHR ''3'', CHR '' '', CHR ''a'', CHR ''+'', CHR ''b'', CHR '' '',
     CHR ''5'', CHR ''0'', CHR ''%'', CHR ''/'', CHR ''r'', CHR 0xC3, CHR 0xA9, CHR ''s'',
     CHR ''u'', CHR ''m'', CHR 0xC3, CHR 0xA9, CHR ''.'', CHR ''p'', CHR ''d'', CHR ''f'']"

section \<open>Facts about the parts\<close>

lemma correlator_calls:
  "fst (getUploadDetailsFromCloudTrail w bucket key eventTime) =
     [LookupEvents (lookup_command w eventTime)]
   \<or> (\<exists>e. fst (getUploadDetailsFromCloudTrail w bucket key eventTime) =
          [LookupEvents (lookup_command w eventTime), ConsoleError e])"
  by (simp add: getUploadDetailsFromCloudTrail_def Let_def split: sum.splits option.splits)

lemma correlator_no_delete [simp]:
  "filter is_delete (fst (getUploadDetailsFromCloudTrail w bucket key eventTime)) = []"
  using correlator_calls [of w bucket key eventTime] by auto

lemma correlator_no_notify [simp]:
  "filter is_notify (fst (getUploadDetailsFromCloudTrail w bucket key eventTime)) = []"
  using correlator_calls [of w bucket key eventTime] by auto

lemma correlator_no_scan [simp]:
  "filter is_scan (fst (getUploadDetailsFromCloudTrail w bucket key eventTime)) = []"
  using correlator_calls [of w bucket key eventTime] by auto

lemma result_of_eq:
  \<open>result_of False =
     \<lparr>statusCode = 200, body = ''{"message":"Scan complete.","status":"Clean"}''\<rparr>\<close>
  \<open>result_of True =
     \<lparr>statusCode = 200, body = ''{"message":"Scan complete.","status":"Malicious"}''\<rparr>\<close>
  by (simp_all add: result_of_def JSON_stringify_def quoted_def)

lemma scan_invoice:
  "scanWithCrowdstrike ''uploads'' ''reports/invoice.pdf'' =
     Inr \<lparr>isMalicious = False, details = ''Scan complete. No threats found.''\<rparr>"
  by (simp add: scanWithCrowdstrike_def toLowerCase_def lower_char_def)

lemma scan_malicious_invoice:
  "scanWithCrowdstrike ''uploads'' ''reports/malicious_invoice.pdf'' =
     Inr \<lparr>isMalicious = True, details = ''Simulated detection: EICAR Test File''\<rparr>"
  by (simp add: scanWithCrowdstrike_def toLowerCase_def lower_char_def)

lemma decode_invoice: "decode_key ''reports/invoice.pdf'' = Inr ''reports/invoice.pdf''"
  by (simp add: decode_key_def replace_plus_def)

lemma decode_malicious_invoice:
  "decode_key ''reports/malicious_invoice.pdf'' = Inr ''reports/malicious_invoice.pdf''"
  by (simp add: decode_key_def replace_plus_def)

lemma window_eq: "lookup_command w ''2024-01-01T10:00:00Z'' = window"
  if "Date_of w = ten_o_clock" "LocalTZA w = (\<lambda>t isUTC. 0)"
  using that
  by (simp add: lookup_command_def window_def ten_o_clock_def getMinutes_def setMinutes_def
      LocalTime_def UTC_def
      TimeClip_def MakeDate_def MakeTime_def Day_def HourFromTime_def MinFromTime_def
      SecFromTime_def msFromTime_def msPerDay_def msPerHour_def msPerMinute_def msPerSecond_def)

lemma find_alice:
  "find_upload ''uploads'' ''reports/malicious_invoice.pdf'' [alice_event] = Inr (Some alice)"
  by (simp add: alice_event_def alice_def matches_def details_of_def js_or_def)

lemma correlate_alice:
  "getUploadDetailsFromCloudTrail w ''uploads'' ''reports/malicious_invoice.pdf''
     ''2024-01-01T10:00:00Z'' = ([LookupEvents window], alice)"
  if "Date_of w = ten_o_clock" "LocalTZA w = (\<lambda>t isUTC. 0)"
    "cloudTrail_send w = (\<lambda>c. Inr (Some [alice_event]))"
  using that
  by (simp add: getUploadDetailsFromCloudTrail_def window_eq find_alice del: find_upload.simps)

lemma run_invoice:
  \<open>handler_with scanWithCrowdstrike w en \<lparr>Records = upload ''reports/invoice.pdf'' # rest\<rparr> =
     ([ScanCall ''uploads'' ''reports/invoice.pdf''],
      Inr \<lparr>statusCode = 200, body = ''{"message":"Scan complete.","status":"Clean"}''\<rparr>)\<close>
  by (simp add: handler_with_def upload_def decode_invoice try_catch_def try_block_def
      scan_invoice result_of_eq)

subsection \<open>The lookback window\<close>

lemma decompose:
  "(t::int) = (t div 86400000) * 86400000 + ((t div 3600000) mod 24) * 3600000
     + ((t div 60000) mod 60) * 60000 + ((t div 1000) mod 60) * 1000 + t mod 1000"
proof -
  have a: "t = (t div 1000) * 1000 + t mod 1000" by simp
  have b: "t div 1000 = (t div 1000 div 60) * 60 + (t div 1000) mod 60" by simp
  have b': "t div 1000 div 60 = t div 60000" by (simp add: zdiv_zmult2_eq [symmetric])
  have c: "t div 60000 = (t div 60000 div 60) * 60 + (t div 60000) mod 60" by simp
  have c': "t div 60000 div 60 = t div 3600000" by (simp add: zdiv_zmult2_eq [symmetric])
  have d: "t div 3600000 = (t div 3600000 div 24) * 24 + (t div 3600000) mod 24" by simp
  have d': "t div 3600000 div 24 = t div 86400000" by (simp add: zdiv_zmult2_eq [symmetric])
  show ?thesis using a b b' c c' d d' by linarith
qed

lemma minutes_back:
  "(t::int) = D * 86400000 + H * 3600000 + M * 60000 + S * 1000 + ms \<Longrightarrow>
     D * 86400000 + (H * 3600000 + (M - 15) * 60000 + S * 1000 + ms) = t - 15 * 60000"
  by (simp add: algebra_simps)

lemma fifteen_minutes_back:
  "setMinutes tza (Some t) (map_option (\<lambda>m. m - 15) (getMinutes tza (Some t))) =
     TimeClip (UTC tza (LocalTime tza t - 15 * 60000))"
proof -
  let ?l = "LocalTime tza t"
  have "MakeDate (Day ?l) (MakeTime (HourFromTime ?l) (MinFromTime ?l - 15) (SecFromTime ?l) (msFromTime ?l))
        = ?l - 15 * 60000"
    unfolding MakeDate_def MakeTime_def Day_def HourFromTime_def MinFromTime_def
      SecFromTime_def msFromTime_def msPerDay_def msPerHour_def msPerMinute_def msPerSecond_def
    by (rule minutes_back [OF decompose])
  then show ?thesis
    unfolding setMinutes_def getMinutes_def by (simp add: Let_def)
qed

lemma lookup_window:
  "lookup_command w eventTime =
     \<lparr>AttributeKey = ''EventName'', AttributeValue = ''PutObject'',
      StartTime = (case Date_of w eventTime of
                     None \<Rightarrow> None
                   | Some t \<Rightarrow>
                       TimeClip (UTC (LocalTZA w) (LocalTime (LocalTZA w) t - 15 * 60000))),
      EndTime = Date_of w eventTime\<rparr>"
proof (cases "Date_of w eventTime")
  case None
  then show ?thesis
    by (simp add: lookup_command_def setMinutes_def)
next
  case (Some t)
  then show ?thesis
    using fifteen_minutes_back [of "LocalTZA w" t] by (simp add: lookup_command_def)
qed

lemma same_offset:
  "tza (t + tza t True - 15 * 60000) False = tza t True \<Longrightarrow>
     UTC tza (LocalTime tza t - 15 * 60000) = t - 15 * 60000"
  by (simp add: UTC_def LocalTime_def)

subsection \<open>The template literal\<close>

lemma interpolate_not_found:
  "interpolate (not_found eventTime) =
     Inr ([Chars ''Not Found (CloudTrail Latency)''], [Chars ''Not Found''], [Chars eventTime])"
  by (simp add: interpolate_def not_found_def)

lemma interpolate_alice:
  "interpolate alice =
     Inr ([Chars ''arn:aws:iam::123:user/alice''], [Chars ''203.0.113.5''],
          [Chars ''2024-01-01T09:59:58Z''])"
  by (simp add: interpolate_def alice_def)

subsection \<open>The loop over the events\<close>

lemma find_upload_match [simp]:
  "is_match bucket key ev \<Longrightarrow>
     find_upload bucket key (ev # evs) = map_sum id Some (details_of (the (CloudTrailEvent ev)))"
  by (cases "CloudTrailEvent ev") (simp_all add: is_match_def)

lemma find_upload_passed_over [simp]:
  "passed_over bucket key ev \<Longrightarrow> find_upload bucket key (ev # evs) = find_upload bucket key evs"
  by (cases "CloudTrailEvent ev") (simp_all add: passed_over_def)

lemma find_upload_throws:
  "\<not> is_match bucket key ev \<Longrightarrow> \<not> passed_over bucket key ev \<Longrightarrow>
     \<exists>e. find_upload bucket key (ev # evs) = Inl e"
proof (cases "CloudTrailEvent ev")
  case None
  then show ?thesis by simp
next
  case (Some c)
  assume "\<not> is_match bucket key ev" "\<not> passed_over bucket key ev"
  with Some have "matches bucket key c \<noteq> Inr True" "matches bucket key c \<noteq> Inr False"
    by (simp_all add: is_match_def passed_over_def)
  then obtain e where "matches bucket key c = Inl e"
    by (cases "matches bucket key c") auto
  with Some show ?thesis by simp
qed

lemma find_upload_no_match:
  "\<forall>ev\<in>set evs. \<not> is_match bucket key ev \<Longrightarrow> find_upload bucket key evs \<noteq> Inr (Some d)"
proof (induction evs)
  case Nil
  then show ?case by simp
next
  case (Cons ev evs)
  show ?case
  proof (cases "passed_over bucket key ev")
    case True
    with Cons show ?thesis by (simp del: find_upload.simps)
  next
    case False
    with Cons.prems find_upload_throws [of bucket key ev evs] show ?thesis
      by (auto simp del: find_upload.simps)
  qed
qed

lemma find_upload_first_match:
  assumes "\<forall>ev\<in>set pre. passed_over bucket key ev"
    and "CloudTrailEvent e = Some cloudTrailEvent"
    and "matches bucket key cloudTrailEvent = Inr True"
  shows "find_upload bucket key (pre @ e # post) = map_sum id Some (details_of cloudTrailEvent)"
  using assms
proof (induction pre)
  case Nil
  then show ?case by (simp add: map_sum.identity id_def)
next
  case (Cons a pre)
  then show ?case by (simp del: find_upload.simps)
qed

lemma find_upload_Some:
  "find_upload bucket key evs = Inr (Some d) \<Longrightarrow>
     \<exists>ev cloudTrailEvent. ev \<in> set evs \<and> CloudTrailEvent ev = Some cloudTrailEvent
        \<and> matches bucket key cloudTrailEvent = Inr True \<and> details_of cloudTrailEvent = Inr d"
proof (induction evs)
  case Nil
  then show ?case by simp
next
  case (Cons ev evs)
  show ?case
  proof (cases "is_match bucket key ev")
    case True
    then obtain c where c: "CloudTrailEvent ev = Some c" "matches bucket key c = Inr True"
      by (auto simp add: is_match_def split: option.splits)
    with Cons.prems have "details_of c = Inr d"
      by (cases "details_of c") auto
    with c show ?thesis by auto
  next
    case False
    have "find_upload bucket key evs = Inr (Some d)"
    proof (cases "passed_over bucket key ev")
      case True
      with Cons.prems show ?thesis by (simp del: find_upload.simps)
    next
      case no: False
      with False Cons.prems find_upload_throws [of bucket key ev evs] show ?thesis
        by (auto simp del: find_upload.simps)
    qed
    from Cons.IH [OF this] show ?thesis by auto
  qed
qed

lemma correlator_fallback:
  assumes "cloudTrail_send w (lookup_command w eventTime) = Inl e
           \<or> cloudTrail_send w (lookup_command w eventTime) = Inr None
           \<or> (\<exists>evs. cloudTrail_send w (lookup_command w eventTime) = Inr (Some evs)
                 \<and> (\<forall>ev\<in>set evs. \<not> is_match bucket key ev))"
  shows "snd (getUploadDetailsFromCloudTrail w bucket key eventTime) = not_found eventTime"
  using assms find_upload_no_match [of _ bucket key]
  by (auto simp add: getUploadDetailsFromCloudTrail_def Let_def split: sum.splits option.splits)

subsection \<open>The events of the scenario\<close>

lemma match_alice: "is_match ''uploads'' ''reports/malicious_invoice.pdf'' alice_event"
  by (simp add: is_match_def alice_event_def matches_def)

lemma match_role: "is_match ''uploads'' ''reports/malicious_invoice.pdf'' role_event"
  by (simp add: is_match_def role_event_def matches_def)

lemma match_anon: "is_match ''uploads'' ''reports/malicious_invoice.pdf'' anonymous_event"
  by (simp add: is_match_def anonymous_event_def matches_def)

lemma match_noid: "is_match ''uploads'' ''reports/malicious_invoice.pdf'' no_identity_event"
  by (simp add: is_match_def no_identity_event_def matches_def)

lemma pass_other: "passed_over ''uploads'' ''reports/malicious_invoice.pdf'' other_event"
  by (simp add: passed_over_def other_event_def matches_def)

lemma nomatch_other: "\<not> is_match ''uploads'' ''reports/malicious_invoice.pdf'' other_event"
  by (simp add: is_match_def other_event_def matches_def)

lemma details_role: "details_of (the (CloudTrailEvent role_event)) =
   Inr \<lparr>user = JStr ''AROAEXAMPLE:session'', ipAddress = JStr ''192.0.2.44'',
        uploadTime = JStr ''2024-01-01T09:59:40Z''\<rparr>"
  by (simp add: role_event_def details_of_def js_or_def)

lemma details_anon: "details_of (the (CloudTrailEvent anonymous_event)) =
   Inr \<lparr>user = JUndefined, ipAddress = JStr ''203.0.113.5'',
        uploadTime = JStr ''2024-01-01T09:59:58Z''\<rparr>"
  by (simp add: anonymous_event_def details_of_def js_or_def)

lemma details_noid: "details_of (the (CloudTrailEvent no_identity_event)) = Inl TypeError"
  by (simp add: no_identity_event_def details_of_def js_or_def)

lemma match_unprintable:
  "is_match ''uploads'' ''reports/malicious_invoice.pdf'' unprintable_event"
  by (simp add: is_match_def unprintable_event_def matches_def)

lemma details_unprintable:
  "details_of (the (CloudTrailEvent unprintable_event)) =
     Inr \<lparr>user = JObj [(''toString'', JNum 0)], ipAddress = JStr ''203.0.113.5'',
          uploadTime = JStr ''2024-01-01T09:59:58Z''\<rparr>"
  by (simp add: unprintable_event_def details_of_def js_or_def)

lemma correlate_answers:
  "getUploadDetailsFromCloudTrail (audit_answers evs) bucket key ''2024-01-01T10:00:00Z'' =
     (case find_upload bucket key evs of
        Inr (Some d) \<Rightarrow> ([LookupEvents window], d)
      | Inr None \<Rightarrow> ([LookupEvents window], not_found ''2024-01-01T10:00:00Z'')
      | Inl error \<Rightarrow> ([LookupEvents window, ConsoleError error], not_found ''2024-01-01T10:00:00Z''))"
  by (simp add: getUploadDetailsFromCloudTrail_def audit_answers_def all_up_def window_eq)

lemma correlate_down:
  "getUploadDetailsFromCloudTrail audit_down bucket key ''2024-01-01T10:00:00Z'' =
     ([LookupEvents window, ConsoleError (ServiceError ''ThrottlingException'')],
      not_found ''2024-01-01T10:00:00Z'')"
  by (simp add: getUploadDetailsFromCloudTrail_def audit_down_def all_up_def window_eq)

section \<open>Facts about the key encoding\<close>

lemma hex_digit_hex_char: "m < 16 \<Longrightarrow> hex_digit (hex_char m) = Some m"
  by (auto simp add: hex_digit_def hex_char_def Let_def)

lemma parse_percent:
  "ParseHexOctet (hex_char (of_char c div 16)) (hex_char (of_char c mod 16)) = Some (of_char c)"
proof -
  have "(of_char c :: nat) < 256" by simp
  then have "(of_char c :: nat) div 16 < 16" by arith
  then show ?thesis
    by (simp add: ParseHexOctet_def hex_digit_hex_char)
qed

lemma replace_plus_append: "replace_plus (xs @ ys) = replace_plus xs @ replace_plus ys"
  by (simp add: replace_plus_def)

lemma of_char_hex_char: "m < 16 \<Longrightarrow> (of_char (hex_char m) :: nat) = (if m < 10 then 48 + m else 55 + m)"
  by (simp add: hex_char_def)

lemma hex_char_not_plus:
  assumes "m < 16"
  shows "hex_char m \<noteq> CHR ''+''"
proof
  assume "hex_char m = CHR ''+''"
  then have "(of_char (hex_char m) :: nat) = of_char CHR ''+''" by simp
  with assms show False
    by (simp add: of_char_hex_char split: if_splits)
qed

lemma replace_plus_percent: "replace_plus (percent c) = percent c"
proof -
  have "(of_char c :: nat) < 256" by simp
  then have "(of_char c :: nat) div 16 < 16" by arith
  then show ?thesis
    by (simp add: replace_plus_def percent_def hex_char_not_plus)
qed

lemma replace_plus_encode_char:
  assumes "\<forall>c. keep c \<longrightarrow> (of_char c :: nat) < 128 \<and> c \<noteq> CHR ''%'' \<and> c \<noteq> CHR ''+''"
  shows "replace_plus (encode_char keep c) =
           (if c = CHR '' '' \<or> keep c then [c] else percent c)"
  using assms by (auto simp add: encode_char_def replace_plus_percent) (auto simp add: replace_plus_def)

lemma decode_plain:
  "c \<noteq> CHR ''%'' \<Longrightarrow> decodeURIComponent (c # s) = map_sum id ((#) c) (decodeURIComponent s)"
  by simp

lemma decode_ascii_escape:
  "(of_char c :: nat) < 128 \<Longrightarrow>
     decodeURIComponent (percent c @ s) = map_sum id ((#) c) (decodeURIComponent s)"
  by (simp add: percent_def parse_percent leading_ones_def)

lemma continuation_percent:
  "continuation_octets (length xs) (concat (map percent xs) @ s) = Some (map of_char xs, s)"
proof (induction xs)
  case Nil
  then show ?case by simp
next
  case (Cons x xs)
  then show ?case
    by (simp add: percent_def parse_percent)
qed

lemma decode_sequence:
  assumes "1 < leading_ones (of_char c)" "leading_ones (of_char c) \<le> 4"
    and "length xs = leading_ones (of_char c) - 1"
    and "valid_utf8 (of_char c # map of_char xs)"
  shows "decodeURIComponent (percent c @ concat (map percent xs) @ s) =
           map_sum id ((@) (c # xs)) (decodeURIComponent s)"
proof -
  have "continuation_octets (leading_ones (of_char c) - 1) (concat (map percent xs) @ s) =
          Some (map of_char xs, s)"
    using continuation_percent [of xs s] assms(3) by simp
  with assms show ?thesis
    by (simp add: percent_def parse_percent comp_def)
qed

lemma valid_utf8_continuations:
  "valid_utf8 (a # bs) \<Longrightarrow> b \<in> set bs \<Longrightarrow> 128 \<le> b"
  by (induction "a # bs" arbitrary: a bs rule: valid_utf8.induct) (auto simp add: cont_def)

lemma leading_ones_0: "leading_ones B = 0 \<longleftrightarrow> B < 128"
  by (simp add: leading_ones_def)

lemma replace_plus_encode_key:
  assumes "\<forall>c. keep c \<longrightarrow> (of_char c :: nat) < 128 \<and> c \<noteq> CHR ''%'' \<and> c \<noteq> CHR ''+''"
  shows "replace_plus (encode_key keep k) =
           concat (map (\<lambda>c. if c = CHR '' '' \<or> keep c then [c] else percent c) k)"
proof (induction k)
  case Nil
  then show ?case by (simp add: encode_key_def replace_plus_def)
next
  case (Cons c k)
  then show ?case
    using replace_plus_encode_char [OF assms, of c]
    by (simp add: encode_key_def replace_plus_append)
qed

lemma decode_encoded:
  assumes keep: "\<forall>c. keep c \<longrightarrow> (of_char c :: nat) < 128 \<and> c \<noteq> CHR ''%'' \<and> c \<noteq> CHR ''+''"
  shows "utf8 k \<Longrightarrow>
           decodeURIComponent
             (concat (map (\<lambda>c. if c = CHR '' '' \<or> keep c then [c] else percent c) k)) = Inr k"
proof (induction k rule: utf8.induct)
  case 1
  then show ?case by simp
next
  case (2 c cs)
  let ?E = "\<lambda>c. if c = CHR '' '' \<or> keep c then [c] else percent c"
  let ?n = "leading_ones (of_char c)"
  show ?case
  proof (cases "?n = 0")
    case True
    with "2.prems" have "utf8 cs" by simp
    with True "2.IH"(1) have rest: "decodeURIComponent (concat (map ?E cs)) = Inr cs" by simp
    from True have ascii: "(of_char c :: nat) < 128" by (simp add: leading_ones_0)
    show ?thesis
    proof (cases "c = CHR '' '' \<or> keep c")
      case True
      with keep have "c \<noteq> CHR ''%''" by auto
      with True rest show ?thesis by (simp del: decodeURIComponent.simps add: decode_plain)
    next
      case False
      with rest ascii show ?thesis
        by (simp del: decodeURIComponent.simps add: decode_ascii_escape)
    qed
  next
    case False
    with "2.prems" have n: "1 < ?n" "?n \<le> 4"
      and len: "?n - 1 \<le> length cs"
      and valid: "valid_utf8 (of_char c # map of_char (take (?n - 1) cs))"
      and tail: "utf8 (drop (?n - 1) cs)"
      by (auto split: if_splits)
    from False n "2.IH"(2) tail
    have rest: "decodeURIComponent (concat (map ?E (drop (?n - 1) cs))) = Inr (drop (?n - 1) cs)"
      by simp
    from False have high: "\<not> (of_char c :: nat) < 128" by (simp add: leading_ones_0)
    then have c: "?E c = percent c"
      using keep by auto
    have "?E b = percent b" if "b \<in> set (take (?n - 1) cs)" for b
    proof -
      from that have "(of_char b :: nat) \<in> set (map of_char (take (?n - 1) cs))" by simp
      with valid have "128 \<le> (of_char b :: nat)" by (rule valid_utf8_continuations)
      then show ?thesis using keep by auto
    qed
    then have xs: "concat (map ?E (take (?n - 1) cs)) = concat (map percent (take (?n - 1) cs))"
      by (simp cong: map_cong)
    have "concat (map ?E (c # cs)) =
            percent c @ concat (map percent (take (?n - 1) cs)) @ concat (map ?E (drop (?n - 1) cs))"
    proof -
      have "concat (map ?E cs) = concat (map ?E (take (?n - 1) cs @ drop (?n - 1) cs))" by simp
      also have "\<dots> = concat (map ?E (take (?n - 1) cs)) @ concat (map ?E (drop (?n - 1) cs))"
        by (simp only: map_append concat_append)
      finally show ?thesis using c xs by simp
    qed
    moreover have "length (take (?n - 1) cs) = ?n - 1" using len by simp
    ultimately show ?thesis
      using decode_sequence [OF n _ valid, of "concat (map ?E (drop (?n - 1) cs))"] rest
      by (simp del: decodeURIComponent.simps)
  qed
qed

lemma unreserved_safe:
  "\<forall>c. unreserved c \<longrightarrow> (of_char c :: nat) < 128 \<and> c \<noteq> CHR ''%'' \<and> c \<noteq> CHR ''+''"
  by (auto simp add: unreserved_def Let_def)

lemma utf8_stored_key: "utf8 stored_key"
  by (simp add: stored_key_def leading_ones_def cont_def)

lemma encode_stored_key:
  "encode_key unreserved stored_key = ''Q3+a%2Bb+50%25/r%C3%A9sum%C3%A9.pdf''"
  by (simp add: encode_key_def stored_key_def encode_char_def unreserved_def percent_def
      hex_char_def char_of_eq_iff)

lemma scan_stored_key:
  "scanWithCrowdstrike ''uploads'' stored_key =
     Inr \<lparr>isMalicious = False, details = ''Scan complete. No threats found.''\<rparr>"
  by (simp add: scanWithCrowdstrike_def toLowerCase_def lower_char_def stored_key_def
      char_of_eq_iff)

section \<open>The pipeline\<close>

text \<open>
  C1. When the scanner answers with \<open>isMalicious = false\<close>, the run consists of the scan
  call alone: no delete call and no notify call is made, and the handler returns status
  code 200 with the body \<open>{"message":"Scan complete.","status":"Clean"}\<close>. The event is
  one that reaches the scanner: it has a first record and that record's key decodes.
\<close>

theorem clean_scan_no_remediation:
  assumes "Records ev = record # rest"
    and "decode_key (object_key record) = Inr key"
    and "scan (bucket_name record) key = Inr scanResult"
    and "\<not> isMalicious scanResult"
  shows \<open>handler_with scan w en ev =
           ([ScanCall (bucket_name record) key],
            Inr \<lparr>statusCode = 200,
                 body = ''{"message":"Scan complete.","status":"Clean"}''\<rparr>)
         \<and> filter is_delete (fst (handler_with scan w en ev)) = []
         \<and> filter is_notify (fst (handler_with scan w en ev)) = []\<close>
  using assms
  by (simp add: handler_with_def try_catch_def try_block_def result_of_eq)

theorem clean_scan_no_remediation_witness:
  \<open>handler all_up mail_env clean_upload =
     ([ScanCall ''uploads'' ''reports/invoice.pdf''],
      Inr \<lparr>statusCode = 200, body = ''{"message":"Scan complete.","status":"Clean"}''\<rparr>)
   \<and> filter is_delete (fst (handler all_up mail_env clean_upload)) = []
   \<and> filter is_notify (fst (handler all_up mail_env clean_upload)) = []\<close>
  using clean_scan_no_remediation [of clean_upload "upload ''reports/invoice.pdf''" "[]"
      "''reports/invoice.pdf''" scanWithCrowdstrike
      "\<lparr>isMalicious = False, details = ''Scan complete. No threats found.''\<rparr>"
      all_up mail_env]
  by (simp add: handler_def clean_upload_def upload_def scan_invoice decode_invoice)

text \<open>
  C2. When the scanner answers with \<open>isMalicious = true\<close> and the delete call and the
  notify call both succeed (the text of the alert is built and the send resolves), the
  run makes exactly one delete call, for the bucket and the decoded key of the record,
  and exactly one notify call, and the handler returns status code 200 with the body
  \<open>{"message":"Scan complete.","status":"Malicious"}\<close>. This is the terminal state the
  specification calls Remediated.
\<close>

theorem malicious_scan_remediated:
  assumes "Records ev = record # rest"
    and "decode_key (object_key record) = Inr key"
    and "scan (bucket_name record) key = Inr scanResult"
    and "isMalicious scanResult"
    and "s3_send w \<lparr>Bucket = bucket_name record, Key = key\<rparr> = Inr ()"
    and "interpolate (snd (getUploadDetailsFromCloudTrail w (bucket_name record) key
                             (record_eventTime record))) = Inr alert"
    and "ses_send w (email_command en (bucket_name record) key scanResult
           (snd (getUploadDetailsFromCloudTrail w (bucket_name record) key
                   (record_eventTime record)))) = Inr ()"
  shows \<open>snd (handler_with scan w en ev) =
           Inr \<lparr>statusCode = 200,
                body = ''{"message":"Scan complete.","status":"Malicious"}''\<rparr>
         \<and> filter is_delete (fst (handler_with scan w en ev)) =
             [DeleteObject \<lparr>Bucket = bucket_name record, Key = key\<rparr>]
         \<and> filter is_notify (fst (handler_with scan w en ev)) =
             [SendEmail (email_command en (bucket_name record) key scanResult
                (snd (getUploadDetailsFromCloudTrail w (bucket_name record) key
                        (record_eventTime record))))]\<close>
  using assms
  by (simp add: handler_with_def try_catch_def try_block_def result_of_eq Let_def
      case_prod_unfold)

theorem malicious_scan_remediated_witness:
  \<open>snd (handler all_up mail_env malicious_upload) =
     Inr \<lparr>statusCode = 200, body = ''{"message":"Scan complete.","status":"Malicious"}''\<rparr>
   \<and> filter is_delete (fst (handler all_up mail_env malicious_upload)) =
       [DeleteObject \<lparr>Bucket = ''uploads'', Key = ''reports/malicious_invoice.pdf''\<rparr>]
   \<and> filter is_notify (fst (handler all_up mail_env malicious_upload)) =
       [SendEmail
          \<lparr>ToAddresses = [Some ''soc@example.com''],
           Subject = ''[SECURITY ALERT] Malicious File Deleted from S3'',
           Body = \<lparr>body_bucket = ''uploads'', body_key = ''reports/malicious_invoice.pdf'',
                   body_details = ''Simulated detection: EICAR Test File'',
                   body_user = JStr ''arn:aws:iam::123:user/alice'',
                   body_ipAddress = JStr ''203.0.113.5'',
                   body_uploadTime = JStr ''2024-01-01T09:59:58Z''\<rparr>,
           Source = Some ''scanner@example.com''\<rparr>]\<close>
proof -
  have c: "getUploadDetailsFromCloudTrail all_up ''uploads'' ''reports/malicious_invoice.pdf''
             ''2024-01-01T10:00:00Z'' = ([LookupEvents window], alice)"
    by (rule correlate_alice) (simp_all add: all_up_def)
  show ?thesis
    using malicious_scan_remediated [of malicious_upload
        "upload ''reports/malicious_invoice.pdf''" "[]" "''reports/malicious_invoice.pdf''"
        scanWithCrowdstrike
        "\<lparr>isMalicious = True, details = ''Simulated detection: EICAR Test File''\<rparr>"
        all_up
        "([Chars ''arn:aws:iam::123:user/alice''], [Chars ''203.0.113.5''],
          [Chars ''2024-01-01T09:59:58Z''])"
        mail_env]
    by (simp add: handler_def malicious_upload_def upload_def scan_malicious_invoice
        decode_malicious_invoice c interpolate_alice)
      (simp add: all_up_def email_command_def mail_env_def alice_def)
qed

text \<open>
  C3 as stated does not hold: in the scenario of the specification with a mail service
  that rejects the message, the scan is malicious, the delete succeeds, the notify fails,
  and the handler fails the run with the error of the mail service.
\<close>

theorem notify_failure_counterexample:
  "scanWithCrowdstrike ''uploads'' ''reports/malicious_invoice.pdf'' =
     Inr \<lparr>isMalicious = True, details = ''Simulated detection: EICAR Test File''\<rparr>
   \<and> s3_send mail_down \<lparr>Bucket = ''uploads'', Key = ''reports/malicious_invoice.pdf''\<rparr> = Inr ()
   \<and> ses_send mail_down
        (email_command mail_env ''uploads'' ''reports/malicious_invoice.pdf''
           \<lparr>isMalicious = True, details = ''Simulated detection: EICAR Test File''\<rparr> alice) =
       Inl (ServiceError ''MessageRejected'')
   \<and> snd (handler mail_down mail_env malicious_upload) = Inl (ServiceError ''MessageRejected'')"
proof (intro conjI)
  show "scanWithCrowdstrike ''uploads'' ''reports/malicious_invoice.pdf'' =
     Inr \<lparr>isMalicious = True, details = ''Simulated detection: EICAR Test File''\<rparr>"
    by (rule scan_malicious_invoice)
  show "s3_send mail_down \<lparr>Bucket = ''uploads'', Key = ''reports/malicious_invoice.pdf''\<rparr> = Inr ()"
    by (simp add: mail_down_def all_up_def)
  show "ses_send mail_down
        (email_command mail_env ''uploads'' ''reports/malicious_invoice.pdf''
           \<lparr>isMalicious = True, details = ''Simulated detection: EICAR Test File''\<rparr> alice) =
       Inl (ServiceError ''MessageRejected'')"
    by (simp add: mail_down_def)
  have c: "getUploadDetailsFromCloudTrail mail_down ''uploads'' ''reports/malicious_invoice.pdf''
             ''2024-01-01T10:00:00Z'' = ([LookupEvents window], alice)"
    by (rule correlate_alice) (simp_all add: mail_down_def all_up_def)
  have s3: "s3_send mail_down d = Inr ()" for d
    by (simp add: mail_down_def all_up_def)
  have ses: "ses_send mail_down m = Inl (ServiceError ''MessageRejected'')" for m
    by (simp add: mail_down_def)
  show "snd (handler mail_down mail_env malicious_upload) = Inl (ServiceError ''MessageRejected'')"
    by (simp add: handler_def handler_with_def malicious_upload_def upload_def
        decode_malicious_invoice try_catch_def try_block_def scan_malicious_invoice c
        interpolate_alice s3 ses Let_def)
qed

text \<open>
  C3, as the code has it. When the scan is malicious, the delete call succeeds and the
  notify call is made and fails with \<open>e\<close>, the run has made one delete call and one
  notify call, \<open>e\<close> is logged, and the handler rethrows \<open>e\<close> to its invoker: the run
  fails, and no result is returned.
\<close>

theorem notify_failure_propagates:
  assumes "Records ev = record # rest"
    and "decode_key (object_key record) = Inr key"
    and "scan (bucket_name record) key = Inr scanResult"
    and "isMalicious scanResult"
    and "s3_send w \<lparr>Bucket = bucket_name record, Key = key\<rparr> = Inr ()"
    and "interpolate (snd (getUploadDetailsFromCloudTrail w (bucket_name record) key
                             (record_eventTime record))) = Inr alert"
    and "ses_send w (email_command en (bucket_name record) key scanResult
           (snd (getUploadDetailsFromCloudTrail w (bucket_name record) key
                   (record_eventTime record)))) = Inl e"
  shows "handler_with scan w en ev =
           (ScanCall (bucket_name record) key #
              fst (getUploadDetailsFromCloudTrail w (bucket_name record) key
                     (record_eventTime record)) @
              [DeleteObject \<lparr>Bucket = bucket_name record, Key = key\<rparr>,
               SendEmail (email_command en (bucket_name record) key scanResult
                 (snd (getUploadDetailsFromCloudTrail w (bucket_name record) key
                         (record_eventTime record)))),
               ConsoleError e],
            Inl e)"
  using assms
  by (simp add: handler_with_def try_catch_def try_block_def Let_def case_prod_unfold)

theorem notify_failure_propagates_witness:
  "handler mail_down mail_env malicious_upload =
     ([ScanCall ''uploads'' ''reports/malicious_invoice.pdf'',
       LookupEvents window,
       DeleteObject \<lparr>Bucket = ''uploads'', Key = ''reports/malicious_invoice.pdf''\<rparr>,
       SendEmail (email_command mail_env ''uploads'' ''reports/malicious_invoice.pdf''
           \<lparr>isMalicious = True, details = ''Simulated detection: EICAR Test File''\<rparr> alice),
       ConsoleError (ServiceError ''MessageRejected'')],
      Inl (ServiceError ''MessageRejected''))"
proof -
  have c: "getUploadDetailsFromCloudTrail mail_down ''uploads'' ''reports/malicious_invoice.pdf''
             ''2024-01-01T10:00:00Z'' = ([LookupEvents window], alice)"
    by (rule correlate_alice) (simp_all add: mail_down_def all_up_def)
  show ?thesis
    using notify_failure_propagates [of malicious_upload
        "upload ''reports/malicious_invoice.pdf''" "[]" "''reports/malicious_invoice.pdf''"
        scanWithCrowdstrike
        "\<lparr>isMalicious = True, details = ''Simulated detection: EICAR Test File''\<rparr>"
        mail_down
        "([Chars ''arn:aws:iam::123:user/alice''], [Chars ''203.0.113.5''],
          [Chars ''2024-01-01T09:59:58Z''])"
        mail_env "ServiceError ''MessageRejected''"]
    by (simp add: handler_def malicious_upload_def upload_def scan_malicious_invoice
        decode_malicious_invoice c interpolate_alice)
      (simp add: mail_down_def all_up_def)
qed

text \<open>
  C5. When the scanner fails with \<open>e\<close>, or the verdict is malicious and the delete call
  fails with \<open>e\<close>, the handler logs \<open>e\<close> and rethrows it to its invoker: it returns no
  result, so none that reads Clean or Malicious, and it sends no notification. After a
  scanner failure nothing else is called at all: the failure is not read as a verdict.
\<close>

theorem scan_or_delete_failure_propagates:
  assumes "Records ev = record # rest"
    and "decode_key (object_key record) = Inr key"
    and "scan (bucket_name record) key = Inl e
         \<or> (\<exists>scanResult. scan (bucket_name record) key = Inr scanResult
               \<and> isMalicious scanResult
               \<and> s3_send w \<lparr>Bucket = bucket_name record, Key = key\<rparr> = Inl e)"
  shows "snd (handler_with scan w en ev) = Inl e
         \<and> filter is_notify (fst (handler_with scan w en ev)) = []
         \<and> last (fst (handler_with scan w en ev)) = ConsoleError e
         \<and> (scan (bucket_name record) key = Inl e \<longrightarrow>
              fst (handler_with scan w en ev) = [ScanCall (bucket_name record) key, ConsoleError e])"
  using assms
  by (auto simp add: handler_with_def try_catch_def try_block_def Let_def case_prod_unfold)

theorem scan_or_delete_failure_propagates_witness:
  "handler_with scanner_down all_up mail_env malicious_upload =
     ([ScanCall ''uploads'' ''reports/malicious_invoice.pdf'',
       ConsoleError (ServiceError ''ScanUnavailable'')],
      Inl (ServiceError ''ScanUnavailable''))
   \<and> snd (handler storage_down mail_env malicious_upload) = Inl (ServiceError ''AccessDenied'')
   \<and> filter is_notify (fst (handler storage_down mail_env malicious_upload)) = []
   \<and> last (fst (handler storage_down mail_env malicious_upload)) =
       ConsoleError (ServiceError ''AccessDenied'')"
  using scan_or_delete_failure_propagates [of malicious_upload
      "upload ''reports/malicious_invoice.pdf''" "[]" "''reports/malicious_invoice.pdf''"
      scanner_down "ServiceError ''ScanUnavailable''" all_up mail_env]
    scan_or_delete_failure_propagates [of malicious_upload
      "upload ''reports/malicious_invoice.pdf''" "[]" "''reports/malicious_invoice.pdf''"
      scanWithCrowdstrike "ServiceError ''AccessDenied''" storage_down mail_env]
  by (simp add: handler_def malicious_upload_def upload_def scan_malicious_invoice
      decode_malicious_invoice scanner_down_def storage_down_def all_up_def prod_eq_iff)

text \<open>
  C10. The handler reads \<open>Records[0]\<close> only. With no record it fails with a TypeError
  before any call. With records, the run is the run on the first record alone whatever
  follows it: one scan call, for the bucket and decoded key of the first record, at
  most one delete call, for the same bucket and key, and at most one notify call; when
  the key of the first record does not decode, no call is made.
\<close>

theorem first_record_only:
  "handler_with scan w en \<lparr>Records = []\<rparr> = ([], Inl TypeError)
   \<and> handler_with scan w en \<lparr>Records = r # rest\<rparr> = handler_with scan w en \<lparr>Records = [r]\<rparr>
   \<and> (case decode_key (object_key r) of
         Inl e \<Rightarrow> handler_with scan w en \<lparr>Records = r # rest\<rparr> = ([], Inl e)
       | Inr key \<Rightarrow>
           filter is_scan (fst (handler_with scan w en \<lparr>Records = r # rest\<rparr>)) =
             [ScanCall (bucket_name r) key]
           \<and> filter is_delete (fst (handler_with scan w en \<lparr>Records = r # rest\<rparr>))
               \<in> {[], [DeleteObject \<lparr>Bucket = bucket_name r, Key = key\<rparr>]}
           \<and> length (filter is_notify (fst (handler_with scan w en \<lparr>Records = r # rest\<rparr>))) \<le> 1)"
  by (simp add: handler_with_def try_catch_def try_block_def Let_def case_prod_unfold
      split: sum.splits)

theorem first_record_only_witness:
  \<open>handler all_up mail_env no_uploads = ([], Inl TypeError)
   \<and> handler all_up mail_env two_uploads =
       ([ScanCall ''uploads'' ''reports/invoice.pdf''],
        Inr \<lparr>statusCode = 200, body = ''{"message":"Scan complete.","status":"Clean"}''\<rparr>)\<close>
  using first_record_only [of scanWithCrowdstrike all_up mail_env "upload ''reports/invoice.pdf''"
      "[upload ''reports/malicious_invoice.pdf'']"]
  by (simp add: handler_def two_uploads_def no_uploads_def run_invoice)

section \<open>The identity correlator\<close>

text \<open>
  C8 as stated does not hold for every call: the loop of lines 66-77 runs inside the
  \<open>try\<close> of line 62, so an event that cannot be read ends it. Here the first event of
  the response has no JSON text and the second is the upload by alice; the correlator
  logs the SyntaxError and returns the fallback identity, not the identity of the first
  matching event.
\<close>

theorem correlator_window_first_match_counterexample:
  "is_match ''uploads'' ''reports/malicious_invoice.pdf'' alice_event
   \<and> \<not> is_match ''uploads'' ''reports/malicious_invoice.pdf'' (Event None)
   \<and> cloudTrail_send (audit_answers [Event None, alice_event]) window =
       Inr (Some [Event None, alice_event])
   \<and> getUploadDetailsFromCloudTrail (audit_answers [Event None, alice_event]) ''uploads''
        ''reports/malicious_invoice.pdf'' ''2024-01-01T10:00:00Z'' =
       ([LookupEvents window, ConsoleError SyntaxError],
        \<lparr>user = JStr ''Not Found (CloudTrail Latency)'', ipAddress = JStr ''Not Found'',
         uploadTime = JStr ''2024-01-01T10:00:00Z''\<rparr>)"
proof (intro conjI)
  show "is_match ''uploads'' ''reports/malicious_invoice.pdf'' alice_event"
    by (rule match_alice)
  show "\<not> is_match ''uploads'' ''reports/malicious_invoice.pdf'' (Event None)"
    by (simp add: is_match_def)
  show "cloudTrail_send (audit_answers [Event None, alice_event]) window =
          Inr (Some [Event None, alice_event])"
    by (simp add: audit_answers_def)
  show "getUploadDetailsFromCloudTrail (audit_answers [Event None, alice_event]) ''uploads''
          ''reports/malicious_invoice.pdf'' ''2024-01-01T10:00:00Z'' =
        ([LookupEvents window, ConsoleError SyntaxError],
         \<lparr>user = JStr ''Not Found (CloudTrail Latency)'', ipAddress = JStr ''Not Found'',
          uploadTime = JStr ''2024-01-01T10:00:00Z''\<rparr>)"
    by (simp add: correlate_answers not_found_def)
qed

text \<open>
  C8, as the code has it. Every call queries the audit source once, for \<open>PutObject\<close>
  events, over the window that ends at the event time and starts at the event time
  set back fifteen minutes on the local clock of the runtime; the start is exactly
  fifteen minutes before the event time whenever the offset of the time zone is the
  same at both, as it always is on a UTC runtime. The events are read in the order
  received: when every event before the first one that matches the bucket and the key
  is read without error, the result is the identity of that first match if it has a
  \<open>userIdentity\<close>, and the fallback identity if reading it throws; whatever follows the
  first match is not considered.
\<close>

theorem correlator_window_first_match:
  "filter is_lookup (fst (getUploadDetailsFromCloudTrail w bucket key eventTime)) =
     [LookupEvents
        \<lparr>AttributeKey = ''EventName'', AttributeValue = ''PutObject'',
         StartTime = (case Date_of w eventTime of
                        None \<Rightarrow> None
                      | Some t \<Rightarrow>
                          TimeClip (UTC (LocalTZA w) (LocalTime (LocalTZA w) t - 15 * 60000))),
         EndTime = Date_of w eventTime\<rparr>]
   \<and> (Date_of w eventTime = Some t
        \<and> LocalTZA w (t + LocalTZA w t True - 15 * 60000) False = LocalTZA w t True \<longrightarrow>
        StartTime (lookup_command w eventTime) = TimeClip (t - 15 * 60000)
        \<and> EndTime (lookup_command w eventTime) = Some t)
   \<and> (cloudTrail_send w (lookup_command w eventTime) = Inr (Some (pre @ e # post))
        \<and> (\<forall>ev\<in>set pre. passed_over bucket key ev)
        \<and> is_match bucket key e \<longrightarrow>
        snd (getUploadDetailsFromCloudTrail w bucket key eventTime) =
          (case details_of (the (CloudTrailEvent e)) of
             Inr d \<Rightarrow> d
           | Inl error \<Rightarrow> not_found eventTime))"
proof (intro conjI impI)
  have "filter is_lookup (fst (getUploadDetailsFromCloudTrail w bucket key eventTime)) =
          [LookupEvents (lookup_command w eventTime)]"
    using correlator_calls [of w bucket key eventTime] by auto
  then show "filter is_lookup (fst (getUploadDetailsFromCloudTrail w bucket key eventTime)) =
     [LookupEvents
        \<lparr>AttributeKey = ''EventName'', AttributeValue = ''PutObject'',
         StartTime = (case Date_of w eventTime of
                        None \<Rightarrow> None
                      | Some t \<Rightarrow>
                          TimeClip (UTC (LocalTZA w) (LocalTime (LocalTZA w) t - 15 * 60000))),
         EndTime = Date_of w eventTime\<rparr>]"
    by (simp add: lookup_window)
next
  assume "Date_of w eventTime = Some t
    \<and> LocalTZA w (t + LocalTZA w t True - 15 * 60000) False = LocalTZA w t True"
  then show "StartTime (lookup_command w eventTime) = TimeClip (t - 15 * 60000)"
    using same_offset [of "LocalTZA w" t] by (simp add: lookup_window)
next
  assume "Date_of w eventTime = Some t
    \<and> LocalTZA w (t + LocalTZA w t True - 15 * 60000) False = LocalTZA w t True"
  then show "EndTime (lookup_command w eventTime) = Some t"
    by (simp add: lookup_window)
next
  assume h: "cloudTrail_send w (lookup_command w eventTime) = Inr (Some (pre @ e # post))
    \<and> (\<forall>ev\<in>set pre. passed_over bucket key ev) \<and> is_match bucket key e"
  then obtain c where c: "CloudTrailEvent e = Some c" "matches bucket key c = Inr True"
    by (auto simp add: is_match_def split: option.splits)
  from h have pre: "\<forall>ev\<in>set pre. passed_over bucket key ev" by simp
  have "find_upload bucket key (pre @ e # post) = map_sum id Some (details_of c)"
    using pre c by (rule find_upload_first_match)
  with h c(1)
  show "snd (getUploadDetailsFromCloudTrail w bucket key eventTime) =
          (case details_of (the (CloudTrailEvent e)) of
             Inr d \<Rightarrow> d
           | Inl error \<Rightarrow> not_found eventTime)"
    by (cases "details_of c") (simp_all add: getUploadDetailsFromCloudTrail_def Let_def)
qed

theorem correlator_window_first_match_witness:
  "filter is_lookup (fst (getUploadDetailsFromCloudTrail
       (audit_answers [other_event, role_event, alice_event]) ''uploads''
       ''reports/malicious_invoice.pdf'' ''2024-01-01T10:00:00Z'')) =
     [LookupEvents
        \<lparr>AttributeKey = ''EventName'', AttributeValue = ''PutObject'',
         StartTime = Some 1704102300000, EndTime = Some 1704103200000\<rparr>]
   \<and> StartTime (lookup_command (audit_answers [other_event, role_event, alice_event])
        ''2024-01-01T10:00:00Z'') = Some (1704103200000 - 15 * 60000)
   \<and> snd (getUploadDetailsFromCloudTrail
       (audit_answers [other_event, role_event, alice_event]) ''uploads''
       ''reports/malicious_invoice.pdf'' ''2024-01-01T10:00:00Z'') =
     \<lparr>user = JStr ''AROAEXAMPLE:session'', ipAddress = JStr ''192.0.2.44'',
      uploadTime = JStr ''2024-01-01T09:59:40Z''\<rparr>
   \<and> snd (getUploadDetailsFromCloudTrail
       (audit_answers [no_identity_event, alice_event]) ''uploads''
       ''reports/malicious_invoice.pdf'' ''2024-01-01T10:00:00Z'') =
     \<lparr>user = JStr ''Not Found (CloudTrail Latency)'', ipAddress = JStr ''Not Found'',
      uploadTime = JStr ''2024-01-01T10:00:00Z''\<rparr>"
  using correlator_window_first_match [of "audit_answers [other_event, role_event, alice_event]"
      "''uploads''" "''reports/malicious_invoice.pdf''" "''2024-01-01T10:00:00Z''"
      1704103200000 "[other_event]" role_event "[alice_event]"]
    correlator_window_first_match [of "audit_answers [no_identity_event, alice_event]"
      "''uploads''" "''reports/malicious_invoice.pdf''" "''2024-01-01T10:00:00Z''"
      1704103200000 "[]" no_identity_event "[alice_event]"]
  by (simp add: audit_answers_def all_up_def ten_o_clock_def TimeClip_def UTC_def LocalTime_def
      pass_other match_role details_role match_noid details_noid not_found_def)

text \<open>
  C9 as stated does not hold: a matching event whose \<open>userIdentity\<close> has neither
  \<open>arn\<close> nor \<open>principalId\<close> gives an identity whose \<open>user\<close> is \<open>undefined\<close>.
\<close>

theorem correlator_fields_counterexample:
  "is_match ''uploads'' ''reports/malicious_invoice.pdf'' anonymous_event
   \<and> cloudTrail_send (audit_answers [anonymous_event]) window = Inr (Some [anonymous_event])
   \<and> user (snd (getUploadDetailsFromCloudTrail (audit_answers [anonymous_event]) ''uploads''
          ''reports/malicious_invoice.pdf'' ''2024-01-01T10:00:00Z'')) = JUndefined"
proof (intro conjI)
  show "is_match ''uploads'' ''reports/malicious_invoice.pdf'' anonymous_event"
    by (rule match_anon)
  show "cloudTrail_send (audit_answers [anonymous_event]) window = Inr (Some [anonymous_event])"
    by (simp add: audit_answers_def)
  show "user (snd (getUploadDetailsFromCloudTrail (audit_answers [anonymous_event]) ''uploads''
          ''reports/malicious_invoice.pdf'' ''2024-01-01T10:00:00Z'')) = JUndefined"
    by (simp add: correlate_answers match_anon details_anon del: find_upload.simps)
qed

text \<open>
  C9, as the code has it. An identity the correlator returns is either the fallback,
  whose three fields are the strings of lines 83-87, or it is copied from a matching
  event of the response: \<open>user\<close> is \<open>userIdentity.arn\<close> when that is truthy and
  \<open>userIdentity.principalId\<close> otherwise, \<open>ipAddress\<close> is \<open>sourceIPAddress\<close> and
  \<open>uploadTime\<close> is \<open>eventTime\<close>, each as the event has it: a field is populated
  exactly when the event carries a value for it.
\<close>

theorem correlator_fields:
  "snd (getUploadDetailsFromCloudTrail w bucket key eventTime) =
       \<lparr>user = JStr ''Not Found (CloudTrail Latency)'', ipAddress = JStr ''Not Found'',
        uploadTime = JStr eventTime\<rparr>
   \<or> (\<exists>evs ev cloudTrailEvent userIdentity arn principalId.
         cloudTrail_send w (lookup_command w eventTime) = Inr (Some evs)
         \<and> ev \<in> set evs \<and> is_match bucket key ev
         \<and> CloudTrailEvent ev = Some cloudTrailEvent
         \<and> get_prop cloudTrailEvent ''userIdentity'' = Inr userIdentity
         \<and> get_prop userIdentity ''arn'' = Inr arn
         \<and> get_prop userIdentity ''principalId'' = Inr principalId
         \<and> user (snd (getUploadDetailsFromCloudTrail w bucket key eventTime)) =
             (if truthy arn then arn else principalId)
         \<and> get_prop cloudTrailEvent ''sourceIPAddress'' =
             Inr (ipAddress (snd (getUploadDetailsFromCloudTrail w bucket key eventTime)))
         \<and> get_prop cloudTrailEvent ''eventTime'' =
             Inr (uploadTime (snd (getUploadDetailsFromCloudTrail w bucket key eventTime))))"
proof (cases "\<exists>evs d. cloudTrail_send w (lookup_command w eventTime) = Inr (Some evs)
                 \<and> find_upload bucket key evs = Inr (Some d)")
  case False
  then have "snd (getUploadDetailsFromCloudTrail w bucket key eventTime) = not_found eventTime"
    by (auto simp add: getUploadDetailsFromCloudTrail_def Let_def split: sum.splits option.splits)
  then show ?thesis
    by (simp add: not_found_def)
next
  case True
  then obtain evs d where evs: "cloudTrail_send w (lookup_command w eventTime) = Inr (Some evs)"
    and d: "find_upload bucket key evs = Inr (Some d)"
    by blast
  then have res: "snd (getUploadDetailsFromCloudTrail w bucket key eventTime) = d"
    by (simp add: getUploadDetailsFromCloudTrail_def Let_def)
  from find_upload_Some [OF d] obtain ev c where ev: "ev \<in> set evs"
    "CloudTrailEvent ev = Some c" "matches bucket key c = Inr True" "details_of c = Inr d"
    by blast
  from ev(4) obtain ui arn pid where
    "get_prop c ''userIdentity'' = Inr ui" "get_prop ui ''arn'' = Inr arn"
    "get_prop ui ''principalId'' = Inr pid" "user d = (if truthy arn then arn else pid)"
    "get_prop c ''sourceIPAddress'' = Inr (ipAddress d)"
    "get_prop c ''eventTime'' = Inr (uploadTime d)"
    by (auto simp add: details_of_def js_or_def split: sum.splits)
  with evs ev res show ?thesis
    by (auto simp add: is_match_def)
qed

theorem correlator_fields_witness:
  "snd (getUploadDetailsFromCloudTrail (audit_answers [role_event]) ''uploads''
          ''reports/malicious_invoice.pdf'' ''2024-01-01T10:00:00Z'') =
     \<lparr>user = JStr ''AROAEXAMPLE:session'', ipAddress = JStr ''192.0.2.44'',
      uploadTime = JStr ''2024-01-01T09:59:40Z''\<rparr>"
  using correlator_fields [of "audit_answers [role_event]" "''uploads''"
      "''reports/malicious_invoice.pdf''" "''2024-01-01T10:00:00Z''"]
  by (simp add: correlate_answers match_role details_role del: find_upload.simps)

section \<open>Degraded runs\<close>

text \<open>
  C4. In a run on a malicious object, when the audit query fails, or answers without
  an event list, or with events none of which matches the bucket and the key, the
  correlator returns the fallback identity (\<open>user\<close> "Not Found (CloudTrail Latency)",
  \<open>ipAddress\<close> "Not Found", \<open>uploadTime\<close> the event time of the record); it has no
  way to raise. The run goes on: the delete call is made, and when it succeeds the
  notify call is made, with the fallback identity in its body.
\<close>

theorem audit_failure_falls_back:
  assumes "Records ev = record # rest"
    and "decode_key (object_key record) = Inr key"
    and "scan (bucket_name record) key = Inr scanResult"
    and "isMalicious scanResult"
    and "cloudTrail_send w (lookup_command w (record_eventTime record)) = Inl e
         \<or> cloudTrail_send w (lookup_command w (record_eventTime record)) = Inr None
         \<or> (\<exists>evs. cloudTrail_send w (lookup_command w (record_eventTime record)) = Inr (Some evs)
               \<and> (\<forall>ev\<in>set evs. \<not> is_match (bucket_name record) key ev))"
  shows "snd (getUploadDetailsFromCloudTrail w (bucket_name record) key (record_eventTime record)) =
           \<lparr>user = JStr ''Not Found (CloudTrail Latency)'', ipAddress = JStr ''Not Found'',
            uploadTime = JStr (record_eventTime record)\<rparr>
         \<and> filter is_delete (fst (handler_with scan w en ev)) =
             [DeleteObject \<lparr>Bucket = bucket_name record, Key = key\<rparr>]
         \<and> (s3_send w \<lparr>Bucket = bucket_name record, Key = key\<rparr> = Inr () \<longrightarrow>
              filter is_notify (fst (handler_with scan w en ev)) =
                [SendEmail (email_command en (bucket_name record) key scanResult
                   \<lparr>user = JStr ''Not Found (CloudTrail Latency)'', ipAddress = JStr ''Not Found'',
                    uploadTime = JStr (record_eventTime record)\<rparr>)])"
proof -
  have fb: "snd (getUploadDetailsFromCloudTrail w (bucket_name record) key (record_eventTime record))
          = not_found (record_eventTime record)"
    using assms(5) by (rule correlator_fallback)
  have calls: "filter is_delete (fst (handler_with scan w en ev)) =
             [DeleteObject \<lparr>Bucket = bucket_name record, Key = key\<rparr>]"
    using assms(1-4)
    by (simp add: handler_with_def try_catch_def try_block_def Let_def case_prod_unfold
        split: sum.splits)
  have "filter is_notify (fst (handler_with scan w en ev)) =
          [SendEmail (email_command en (bucket_name record) key scanResult
             (not_found (record_eventTime record)))]"
    if "s3_send w \<lparr>Bucket = bucket_name record, Key = key\<rparr> = Inr ()"
    using assms(1-4) that fb
    by (simp add: handler_with_def try_catch_def try_block_def Let_def case_prod_unfold
        interpolate_not_found split: sum.splits)
  with fb calls show ?thesis
    by (simp add: not_found_def)
qed

theorem audit_failure_falls_back_witness:
  "handler audit_down mail_env malicious_upload =
     ([ScanCall ''uploads'' ''reports/malicious_invoice.pdf'',
       LookupEvents window,
       ConsoleError (ServiceError ''ThrottlingException''),
       DeleteObject \<lparr>Bucket = ''uploads'', Key = ''reports/malicious_invoice.pdf''\<rparr>,
       SendEmail (email_command mail_env ''uploads'' ''reports/malicious_invoice.pdf''
          \<lparr>isMalicious = True, details = ''Simulated detection: EICAR Test File''\<rparr>
          \<lparr>user = JStr ''Not Found (CloudTrail Latency)'', ipAddress = JStr ''Not Found'',
           uploadTime = JStr ''2024-01-01T10:00:00Z''\<rparr>)],
      Inr (result_of True))
   \<and> snd (getUploadDetailsFromCloudTrail audit_lagging ''uploads''
          ''reports/malicious_invoice.pdf'' ''2024-01-01T10:00:00Z'') =
       \<lparr>user = JStr ''Not Found (CloudTrail Latency)'', ipAddress = JStr ''Not Found'',
        uploadTime = JStr ''2024-01-01T10:00:00Z''\<rparr>
   \<and> filter is_delete (fst (handler audit_lagging mail_env malicious_upload)) =
       [DeleteObject \<lparr>Bucket = ''uploads'', Key = ''reports/malicious_invoice.pdf''\<rparr>]
   \<and> filter is_notify (fst (handler audit_lagging mail_env malicious_upload)) =
       [SendEmail (email_command mail_env ''uploads'' ''reports/malicious_invoice.pdf''
          \<lparr>isMalicious = True, details = ''Simulated detection: EICAR Test File''\<rparr>
          \<lparr>user = JStr ''Not Found (CloudTrail Latency)'', ipAddress = JStr ''Not Found'',
           uploadTime = JStr ''2024-01-01T10:00:00Z''\<rparr>)]"
proof (intro conjI)
  show "handler audit_down mail_env malicious_upload =
     ([ScanCall ''uploads'' ''reports/malicious_invoice.pdf'',
       LookupEvents window,
       ConsoleError (ServiceError ''ThrottlingException''),
       DeleteObject \<lparr>Bucket = ''uploads'', Key = ''reports/malicious_invoice.pdf''\<rparr>,
       SendEmail (email_command mail_env ''uploads'' ''reports/malicious_invoice.pdf''
          \<lparr>isMalicious = True, details = ''Simulated detection: EICAR Test File''\<rparr>
          \<lparr>user = JStr ''Not Found (CloudTrail Latency)'', ipAddress = JStr ''Not Found'',
           uploadTime = JStr ''2024-01-01T10:00:00Z''\<rparr>)],
      Inr (result_of True))"
    by (simp add: handler_def handler_with_def malicious_upload_def upload_def
        decode_malicious_invoice try_catch_def try_block_def scan_malicious_invoice
        correlate_down interpolate_not_found Let_def)
      (simp add: audit_down_def all_up_def not_found_def interpolate_def)
  have lag: "cloudTrail_send audit_lagging (lookup_command audit_lagging ''2024-01-01T10:00:00Z'')
      = Inr (Some [other_event])"
    by (simp add: audit_lagging_def)
  note w = audit_failure_falls_back [of malicious_upload
      "upload ''reports/malicious_invoice.pdf''" "[]" "''reports/malicious_invoice.pdf''"
      scanWithCrowdstrike
      "\<lparr>isMalicious = True, details = ''Simulated detection: EICAR Test File''\<rparr>"
      audit_lagging "ServiceError ''none''" mail_env]
  have s3: "s3_send audit_lagging x = Inr ()" for x
    by (simp add: audit_lagging_def all_up_def)
  show "snd (getUploadDetailsFromCloudTrail audit_lagging ''uploads''
          ''reports/malicious_invoice.pdf'' ''2024-01-01T10:00:00Z'') =
       \<lparr>user = JStr ''Not Found (CloudTrail Latency)'', ipAddress = JStr ''Not Found'',
        uploadTime = JStr ''2024-01-01T10:00:00Z''\<rparr>"
    using w lag nomatch_other
    by (simp add: malicious_upload_def upload_def decode_malicious_invoice scan_malicious_invoice)
  show "filter is_delete (fst (handler audit_lagging mail_env malicious_upload)) =
       [DeleteObject \<lparr>Bucket = ''uploads'', Key = ''reports/malicious_invoice.pdf''\<rparr>]"
    using w lag nomatch_other
    by (simp add: handler_def malicious_upload_def upload_def decode_malicious_invoice
        scan_malicious_invoice)
  show "filter is_notify (fst (handler audit_lagging mail_env malicious_upload)) =
       [SendEmail (email_command mail_env ''uploads'' ''reports/malicious_invoice.pdf''
          \<lparr>isMalicious = True, details = ''Simulated detection: EICAR Test File''\<rparr>
          \<lparr>user = JStr ''Not Found (CloudTrail Latency)'', ipAddress = JStr ''Not Found'',
           uploadTime = JStr ''2024-01-01T10:00:00Z''\<rparr>)]"
    using w lag nomatch_other s3
    by (simp add: handler_def malicious_upload_def upload_def decode_malicious_invoice
        scan_malicious_invoice)
qed

text \<open>
  C6 as stated does not hold: a run can find the object already absent because its
  bucket has been emptied and removed since the upload, and storage answers the delete
  of an object in a bucket that does not exist with the not-found error \<open>NoSuchBucket\<close>.
  In the scenario of the specification with that answer, the handler logs the error
  and fails the run with it.
\<close>

theorem delete_answer_decides_counterexample:
  "scanWithCrowdstrike ''uploads'' ''reports/malicious_invoice.pdf'' =
     Inr \<lparr>isMalicious = True, details = ''Simulated detection: EICAR Test File''\<rparr>
   \<and> s3_send bucket_gone \<lparr>Bucket = ''uploads'', Key = ''reports/malicious_invoice.pdf''\<rparr> =
       Inl (ServiceError ''NoSuchBucket'')
   \<and> handler bucket_gone mail_env malicious_upload =
       ([ScanCall ''uploads'' ''reports/malicious_invoice.pdf'',
         LookupEvents window,
         DeleteObject \<lparr>Bucket = ''uploads'', Key = ''reports/malicious_invoice.pdf''\<rparr>,
         ConsoleError (ServiceError ''NoSuchBucket'')],
        Inl (ServiceError ''NoSuchBucket''))"
proof (intro conjI)
  show "scanWithCrowdstrike ''uploads'' ''reports/malicious_invoice.pdf'' =
     Inr \<lparr>isMalicious = True, details = ''Simulated detection: EICAR Test File''\<rparr>"
    by (rule scan_malicious_invoice)
  show "s3_send bucket_gone \<lparr>Bucket = ''uploads'', Key = ''reports/malicious_invoice.pdf''\<rparr> =
       Inl (ServiceError ''NoSuchBucket'')"
    by (simp add: bucket_gone_def)
  have "getUploadDetailsFromCloudTrail bucket_gone ''uploads'' ''reports/malicious_invoice.pdf''
     ''2024-01-01T10:00:00Z'' = ([LookupEvents window], alice)"
    by (rule correlate_alice) (simp_all add: bucket_gone_def all_up_def)
  then show "handler bucket_gone mail_env malicious_upload =
       ([ScanCall ''uploads'' ''reports/malicious_invoice.pdf'',
         LookupEvents window,
         DeleteObject \<lparr>Bucket = ''uploads'', Key = ''reports/malicious_invoice.pdf''\<rparr>,
         ConsoleError (ServiceError ''NoSuchBucket'')],
        Inl (ServiceError ''NoSuchBucket''))"
    by (simp add: handler_def handler_with_def malicious_upload_def upload_def
        decode_malicious_invoice try_catch_def try_block_def scan_malicious_invoice
        bucket_gone_def)
qed

text \<open>
  C6, as the code has it. A run on a malicious object sends one delete for the bucket
  and the key, and the answer of storage decides alone: when the call is rejected, with
  a not-found error or any other, the handler logs the error, rethrows it and sends no
  notification; when the call resolves, the delete counts as done and the run goes on
  to the alert: the notify call is made once its text is built, and a value that has
  no text fails the run with a TypeError at that point. Deleting an absent object
  succeeds exactly when storage says so.
\<close>

theorem delete_answer_decides:
  assumes "Records ev = record # rest"
    and "decode_key (object_key record) = Inr key"
    and "scan (bucket_name record) key = Inr scanResult"
    and "isMalicious scanResult"
  shows "filter is_delete (fst (handler_with scan w en ev)) =
           [DeleteObject \<lparr>Bucket = bucket_name record, Key = key\<rparr>]
         \<and> (case s3_send w \<lparr>Bucket = bucket_name record, Key = key\<rparr> of
               Inl e \<Rightarrow>
                 snd (handler_with scan w en ev) = Inl e
                 \<and> last (fst (handler_with scan w en ev)) = ConsoleError e
                 \<and> filter is_notify (fst (handler_with scan w en ev)) = []
             | Inr u \<Rightarrow>
                 (case interpolate (snd (getUploadDetailsFromCloudTrail w (bucket_name record)
                                           key (record_eventTime record))) of
                    Inl e \<Rightarrow>
                      snd (handler_with scan w en ev) = Inl e
                      \<and> filter is_notify (fst (handler_with scan w en ev)) = []
                  | Inr alert \<Rightarrow>
                      filter is_notify (fst (handler_with scan w en ev)) =
                        [SendEmail (email_command en (bucket_name record) key scanResult
                           (snd (getUploadDetailsFromCloudTrail w (bucket_name record) key
                                   (record_eventTime record))))]))"
  using assms
  by (simp add: handler_with_def try_catch_def try_block_def Let_def case_prod_unfold
      split: sum.splits)

theorem delete_answer_decides_witness:
  "filter is_delete (fst (handler bucket_gone mail_env malicious_upload)) =
     [DeleteObject \<lparr>Bucket = ''uploads'', Key = ''reports/malicious_invoice.pdf''\<rparr>]
   \<and> snd (handler bucket_gone mail_env malicious_upload) = Inl (ServiceError ''NoSuchBucket'')
   \<and> last (fst (handler bucket_gone mail_env malicious_upload)) =
       ConsoleError (ServiceError ''NoSuchBucket'')
   \<and> filter is_notify (fst (handler bucket_gone mail_env malicious_upload)) = []
   \<and> filter is_notify (fst (handler all_up mail_env malicious_upload)) =
       [SendEmail (email_command mail_env ''uploads'' ''reports/malicious_invoice.pdf''
          \<lparr>isMalicious = True, details = ''Simulated detection: EICAR Test File''\<rparr> alice)]
   \<and> filter is_delete
        (fst (handler (audit_answers [unprintable_event]) mail_env malicious_upload)) =
       [DeleteObject \<lparr>Bucket = ''uploads'', Key = ''reports/malicious_invoice.pdf''\<rparr>]
   \<and> snd (handler (audit_answers [unprintable_event]) mail_env malicious_upload) =
       Inl TypeError
   \<and> filter is_notify
        (fst (handler (audit_answers [unprintable_event]) mail_env malicious_upload)) = []"
proof -
  have c: "getUploadDetailsFromCloudTrail all_up ''uploads'' ''reports/malicious_invoice.pdf''
             ''2024-01-01T10:00:00Z'' = ([LookupEvents window], alice)"
    by (rule correlate_alice) (simp_all add: all_up_def)
  have s3: "s3_send all_up d = Inr ()" for d
    by (simp add: all_up_def)
  have u: "snd (getUploadDetailsFromCloudTrail (audit_answers [unprintable_event]) ''uploads''
             ''reports/malicious_invoice.pdf'' ''2024-01-01T10:00:00Z'') =
           \<lparr>user = JObj [(''toString'', JNum 0)], ipAddress = JStr ''203.0.113.5'',
            uploadTime = JStr ''2024-01-01T09:59:58Z''\<rparr>"
    by (simp add: correlate_answers match_unprintable details_unprintable
        del: find_upload.simps)
  have i: "interpolate \<lparr>user = JObj [(''toString'', JNum 0)], ipAddress = JStr ''203.0.113.5'',
            uploadTime = JStr ''2024-01-01T09:59:58Z''\<rparr> = Inl TypeError"
    by (simp add: interpolate_def)
  have s3': "s3_send (audit_answers [unprintable_event]) d = Inr ()" for d
    by (simp add: audit_answers_def all_up_def)
  note third = delete_answer_decides [of malicious_upload
        "upload ''reports/malicious_invoice.pdf''" "[]" "''reports/malicious_invoice.pdf''"
        scanWithCrowdstrike
        "\<lparr>isMalicious = True, details = ''Simulated detection: EICAR Test File''\<rparr>"
        "audit_answers [unprintable_event]" mail_env]
  have t: "filter is_delete
        (fst (handler (audit_answers [unprintable_event]) mail_env malicious_upload)) =
       [DeleteObject \<lparr>Bucket = ''uploads'', Key = ''reports/malicious_invoice.pdf''\<rparr>]
   \<and> snd (handler (audit_answers [unprintable_event]) mail_env malicious_upload) =
       Inl TypeError
   \<and> filter is_notify
        (fst (handler (audit_answers [unprintable_event]) mail_env malicious_upload)) = []"
    using third
    by (simp add: handler_def malicious_upload_def upload_def decode_malicious_invoice
        scan_malicious_invoice u i s3')
  from t show ?thesis
    using delete_answer_decides [of malicious_upload
        "upload ''reports/malicious_invoice.pdf''" "[]" "''reports/malicious_invoice.pdf''"
        scanWithCrowdstrike
        "\<lparr>isMalicious = True, details = ''Simulated detection: EICAR Test File''\<rparr>"
        bucket_gone mail_env]
      delete_answer_decides [of malicious_upload
        "upload ''reports/malicious_invoice.pdf''" "[]" "''reports/malicious_invoice.pdf''"
        scanWithCrowdstrike
        "\<lparr>isMalicious = True, details = ''Simulated detection: EICAR Test File''\<rparr>"
        all_up mail_env]
    by (simp add: handler_def malicious_upload_def upload_def decode_malicious_invoice
        scan_malicious_invoice bucket_gone_def c s3 interpolate_alice)
qed

section \<open>Decoding the object key\<close>

text \<open>
  C7. The handler decodes the key of the record by replacing every \<open>+\<close> with a space
  and then percent-decoding (line 97). This inverts the encoding of the event: for
  every stored key, whatever characters it has (\<open>+\<close>, \<open>%\<close>, spaces, code points outside
  ASCII), and every choice of kept characters that keeps neither \<open>+\<close> nor \<open>%\<close> nor
  anything outside ASCII, decoding the encoded key gives back the stored key, and
  the handler runs its pipeline on exactly that key.
\<close>

theorem key_round_trip:
  assumes "utf8 k"
    and "\<forall>c. keep c \<longrightarrow> (of_char c :: nat) < 128 \<and> c \<noteq> CHR ''%'' \<and> c \<noteq> CHR ''+''"
  shows "decode_key s = decodeURIComponent (map (\<lambda>c. if c = CHR ''+'' then CHR '' '' else c) s)
         \<and> decode_key (encode_key keep k) = Inr k
         \<and> handler_with scan w en
             \<lparr>Records = \<lparr>bucket_name = bucket, object_key = encode_key keep k,
                          record_eventTime = eventTime\<rparr> # rest\<rparr> =
             try_catch scan w en bucket k eventTime"
proof -
  have "decode_key (encode_key keep k) = Inr k"
    using decode_encoded [OF assms(2) assms(1)] replace_plus_encode_key [OF assms(2), of k]
    by (simp add: decode_key_def)
  then show ?thesis
    by (simp add: handler_with_def) (simp add: decode_key_def replace_plus_def)
qed

theorem key_round_trip_witness:
  \<open>encode_key unreserved stored_key = ''Q3+a%2Bb+50%25/r%C3%A9sum%C3%A9.pdf''
   \<and> decode_key ''Q3+a%2Bb+50%25/r%C3%A9sum%C3%A9.pdf'' = Inr stored_key
   \<and> handler all_up mail_env \<lparr>Records = [upload ''Q3+a%2Bb+50%25/r%C3%A9sum%C3%A9.pdf'']\<rparr> =
       ([ScanCall ''uploads'' stored_key],
        Inr \<lparr>statusCode = 200, body = ''{"message":"Scan complete.","status":"Clean"}''\<rparr>)\<close>
  using key_round_trip [OF utf8_stored_key unreserved_safe, of "[]" scanWithCrowdstrike
      all_up mail_env "''uploads''" "''2024-01-01T10:00:00Z''" "[]"]
  by (simp add: encode_stored_key handler_def upload_def try_catch_def try_block_def
      scan_stored_key result_of_eq)

end
